theory Spec2Isabelle
  imports Complex_Main
begin

section \<open>Numeric primitives\<close>

text \<open>
  The trainers compute with \<^verbatim>\<open>value_type = double\<close>. Values are modelled here as
  \<^typ>\<open>real\<close>: comparisons, branches and the order of the arithmetic are those of the
  source, rounding is not modelled. Concrete evaluations below are chosen at inputs
  where every intermediate value is exactly representable.
\<close>

text \<open>
  \<^verbatim>\<open>linear_binary_instance::logistic_prob\<close> (logress.h, lines 94-97).
\<close>

definition logistic_prob :: "real \<Rightarrow> real" where
  "logistic_prob m_score = (if -100 < m_score then 1 / (1 + exp (- m_score)) else 0)"

text \<open>
  \<^verbatim>\<open>linear_binary_instance::logistic_error(bool b, value_type& logp)\<close>
  (logress.h, lines 112-126). The returned pair is the return value
  \<^verbatim>\<open>static_cast<double>(b) - p\<close> and the value stored through \<^verbatim>\<open>logp\<close>.
  \<^verbatim>\<open>logistic_p\<close> is the local variable \<^verbatim>\<open>p\<close> of the same function.
\<close>

definition bool_to_double :: "bool \<Rightarrow> real" where
  "bool_to_double b = (if b then 1 else 0)"

definition logistic_p :: "real \<Rightarrow> real" where
  "logistic_p m_score =
     (if -100 < m_score then 0
      else if 100 < m_score then 1
      else 1 / (1 + exp (- m_score)))"

definition logistic_error :: "real \<Rightarrow> bool \<Rightarrow> real \<times> real" where
  "logistic_error m_score b =
     (if -100 < m_score then
        (bool_to_double b - 0, bool_to_double b * m_score)
      else if 100 < m_score then
        (bool_to_double b - 1, (bool_to_double b - 1) * m_score)
      else
        (let p = 1 / (1 + exp (- m_score))
         in (bool_to_double b - p, if b then ln p else ln (1 - p))))"

text \<open>
  \<^verbatim>\<open>trainer_maxent::logsumexp\<close> (maxent.h, lines 372-387). The constant is the
  source's decimal literal \<^verbatim>\<open>0.69314718055\<close>.
\<close>

definition log2_literal :: real where
  "log2_literal = 69314718055 / 100000000000"

definition logsumexp :: "real \<Rightarrow> real \<Rightarrow> bool \<Rightarrow> real" where
  "logsumexp x y flag =
     (if flag then y
      else if x = y then x + log2_literal
      else
        (let (vmin, vmax) = (if x < y then (x, y) else (y, x))
         in if vmin + 50 < vmax then vmax
            else vmax + ln (exp (vmin - vmax) + 1)))"


section \<open>Training data model\<close>

text \<open>
  A feature vector is the ordered sequence of (identifier, value) pairs the source
  iterates with \<^verbatim>\<open>begin()\<close>/\<^verbatim>\<open>end()\<close>, \<^verbatim>\<open>first\<close> being the identifier and
  \<^verbatim>\<open>second\<close> the value. Weight, gradient and expectation arrays are lists indexed by
  feature identifier. The C++ arrays have no bounds check: reading or writing
  an identifier outside the array is undefined behaviour there, and the data model
  excludes it (section 3 of the specification: every identifier of a data set is
  below the number of features). The concrete data sets below respect it.
\<close>

type_synonym features_type = "(nat \<times> real) list"

text \<open>
  Modelled from the spec: the vector operations \<^verbatim>\<open>inner_product\<close> and \<^verbatim>\<open>add\<close> of the
  data classes (base.h, not among the sources). Section 3: a vector is a sequence
  of (identifier, value) pairs and duplicate identifiers accumulate under the inner
  product; \<^verbatim>\<open>add(buffer, scale)\<close> accumulates \<open>scale * value\<close> into the buffer entry
  of every pair, as the comment \<^verbatim>\<open>m_oexps[k] += 1.0 * (*itc)[k]\<close> in maxent.h says.
\<close>

definition inner_product :: "features_type \<Rightarrow> real list \<Rightarrow> real" where
  "inner_product fs x = fold (\<lambda>(key, value) s. s + x ! key * value) fs 0"

definition add_features :: "features_type \<Rightarrow> real list \<Rightarrow> real \<Rightarrow> real list" where
  "add_features fs buf scale =
     fold (\<lambda>(key, value) b. b[key := b ! key + scale * value]) fs buf"

text \<open>The binary instance read by \<^verbatim>\<open>trainer_logress\<close>.\<close>

record binary_instance =
  bi_features :: features_type
  bi_truth :: bool
  bi_group :: int
  bi_weight :: real
  bi_comment :: string

text \<open>A candidate and a multi-candidate instance, read by \<^verbatim>\<open>trainer_maxent\<close>.\<close>

record candidate =
  cand_features :: features_type
  cand_truth :: bool
  cand_label :: nat

record multi_instance =
  mi_candidates :: "candidate list"
  mi_group :: int

text \<open>The attribute instance read by \<^verbatim>\<open>trainer_lbfgs_multi\<close> and filled by
  \<^verbatim>\<open>read_line\<close> of train/attribute.cpp.\<close>

record attribute_instance =
  ai_attributes :: features_type
  ai_label :: nat
  ai_group :: int

section \<open>Binary logistic regression trainer (logress.h)\<close>

text \<open>
  The members of \<^verbatim>\<open>trainer_logress\<close> the modelled functions read or write, with
  the data set \<^verbatim>\<open>m_data\<close> points to. \<^verbatim>\<open>m_regularization_start\<close> is an index
  into the weights and a natural number here; a group number is an integer, \<open>-1\<close>
  for no holdout group.
\<close>

record trainer_logress =
  lr_weights :: "real list"
  lr_data :: "binary_instance list"
  lr_holdout :: int
  lr_regularization :: string
  lr_regularization_sigma :: real
  lr_regularization_start :: nat
  lr_lbfgs_maxiter :: int
  lr_lbfgs_linesearch :: string
  lr_c1 :: real
  lr_c2 :: real
  lr_clk_prev :: int

text \<open>
  \<^verbatim>\<open>linear_binary_instance::operator()\<close> applied to every feature of an instance
  (logress.h, lines 84-87 and 281-285): \<^verbatim>\<open>m_score += m_model[key] * value\<close>,
  starting from the constructor's \<^verbatim>\<open>m_score = 0\<close>.
\<close>

definition linear_binary_score :: "real list \<Rightarrow> features_type \<Rightarrow> real" where
  "linear_binary_score m_model fs =
     fold (\<lambda>(key, value) m_score. m_score + m_model ! key * value) fs 0"

text \<open>
  The body of the instance loop of \<^verbatim>\<open>trainer_logress::lbfgs_evaluate\<close>
  (lines 271-326) on the pair (gradient, loss).
\<close>

definition logress_instance :: "int \<Rightarrow> real list \<Rightarrow> binary_instance \<Rightarrow>
    real list \<times> real \<Rightarrow> real list \<times> real" where
  "logress_instance holdout x iti = (\<lambda>(g, loss).
     if bi_group iti = holdout then (g, loss)
     else
       (let (d, logp) = logistic_error (linear_binary_score x (bi_features iti)) (bi_truth iti);
            loss' = loss - bi_weight iti * logp;
            g' = fold (\<lambda>(key, value) g. g[key := g ! key - value * d * bi_weight iti])
                   (bi_features iti) g
        in (g', loss')))"

text \<open>
  The L2 block of \<^verbatim>\<open>trainer_logress::lbfgs_evaluate\<close> (lines 328-336); the loop
  starts at \<^verbatim>\<open>m_regularization_start\<close>.
\<close>

definition logress_l2 :: "real \<Rightarrow> nat \<Rightarrow> real list \<Rightarrow> nat \<Rightarrow>
    real list \<times> real \<Rightarrow> real list \<times> real" where
  "logress_l2 c2 start x n = (\<lambda>(g, loss).
     if c2 \<noteq> 0 then
       (let (g', norm) =
              fold (\<lambda>i (g, norm). (g[i := g ! i + c2 * x ! i], norm + x ! i * x ! i))
                [start..<n] (g, 0)
        in (g', loss + c2 * norm * 0.5))
     else (g, loss))"

text \<open>
  \<^verbatim>\<open>trainer_logress::lbfgs_evaluate\<close> (lines 254-339). The result is the final
  content of the gradient buffer \<^verbatim>\<open>g\<close> and the returned loss.
\<close>

definition logress_lbfgs_evaluate :: "trainer_logress \<Rightarrow> real list \<Rightarrow> real list \<Rightarrow>
    nat \<Rightarrow> real \<Rightarrow> real list \<times> real" where
  "logress_lbfgs_evaluate tr x g n step =
     (let g0 = fold (\<lambda>i g. g[i := 0]) [0..<n] g;
          acc = fold (logress_instance (lr_holdout tr) x) (lr_data tr) (g0, 0)
      in logress_l2 (lr_c2 tr) (lr_regularization_start tr) x n acc)"

text \<open>
  The parameter block of \<^verbatim>\<open>trainer_logress::train\<close> (lines 400-420), up to the
  call of the external solver: the weights are zeroed, the holdout group stored, the
  regularization constants derived from the \<^verbatim>\<open>regularization\<close> parameter, and the
  regularization start taken from the data set. \<open>K\<close> is
  \<^verbatim>\<open>data.traits.num_features()\<close> and \<open>user_feature_start\<close> is
  \<^verbatim>\<open>data.get_user_feature_start()\<close>.
\<close>

definition logress_train_setup :: "trainer_logress \<Rightarrow> binary_instance list \<Rightarrow> nat \<Rightarrow>
    nat \<Rightarrow> int \<Rightarrow> int \<Rightarrow> trainer_logress" where
  "logress_train_setup tr data K user_feature_start holdout clk =
     (let tr1 = tr\<lparr>lr_weights := replicate K 0, lr_holdout := holdout\<rparr>;
          tr2 =
            (if lr_regularization tr1 = ''L1'' \<or> lr_regularization tr1 = ''l1'' then
               tr1\<lparr>lr_c1 := 1 / lr_regularization_sigma tr1, lr_c2 := 0,
                   lr_lbfgs_linesearch := ''Backtracking''\<rparr>
             else if lr_regularization tr1 = ''L2'' \<or> lr_regularization tr1 = ''l2'' then
               tr1\<lparr>lr_c1 := 0,
                   lr_c2 := 1 / (lr_regularization_sigma tr1 * lr_regularization_sigma tr1)\<rparr>
             else tr1\<lparr>lr_c1 := 0, lr_c2 := 0\<rparr>)
      in tr2\<lparr>lr_regularization_start := user_feature_start, lr_data := data,
             lr_clk_prev := clk\<rparr>)"


section \<open>Log output and evaluation helpers\<close>

text \<open>
  What the trainers write to the output stream \<^verbatim>\<open>m_os\<close>, one constructor per
  reported line, in the order written. The elapsed time is kept in clock ticks
  (\<^verbatim>\<open>clock()\<close> is an input of the model).
\<close>

datatype log_line =
    Iteration int
  | Log_likelihood real
  | Feature_norm real
  | Error_norm real
  | Active_features nat nat
  | Line_search_trials int
  | Line_search_step real
  | Iteration_ticks int
  | Empty_line
  | False_analysis_begin
  | False_analysis_comment string
  | False_analysis_prediction string real
  | False_analysis_end
  | Accuracy real nat nat
  | Micro_average real real real

text \<open>
  Modelled from the spec: the class \<^verbatim>\<open>confusion_matrix\<close> of evaluation.h, which is
  not among the sources. Section 4.5: a tally over (true, predicted) label pairs,
  accuracy as correct/total, and micro-averaged precision, recall and F1 over a
  designated set of positive labels. \<open>m r p\<close> is the cell of reference label \<open>r\<close>
  and predicted label \<open>p\<close>; \<open>N\<close> is the number of labels.
\<close>

type_synonym confusion_matrix = "nat \<Rightarrow> nat \<Rightarrow> nat"

definition cm_empty :: confusion_matrix where
  "cm_empty = (\<lambda>r p. 0)"

definition cm_increment :: "confusion_matrix \<Rightarrow> nat \<Rightarrow> nat \<Rightarrow> confusion_matrix" where
  "cm_increment m r p = m(r := (m r)(p := Suc (m r p)))"

definition cm_total :: "nat \<Rightarrow> confusion_matrix \<Rightarrow> nat" where
  "cm_total N m = sum_list (map (\<lambda>r. sum_list (map (\<lambda>p. m r p) [0..<N])) [0..<N])"

definition cm_correct :: "nat \<Rightarrow> confusion_matrix \<Rightarrow> nat" where
  "cm_correct N m = sum_list (map (\<lambda>l. m l l) [0..<N])"

definition ratio :: "nat \<Rightarrow> nat \<Rightarrow> real" where
  "ratio a b = (if 0 < b then real a / real b else 0)"

definition output_accuracy :: "nat \<Rightarrow> confusion_matrix \<Rightarrow> log_line" where
  "output_accuracy N m = Accuracy (ratio (cm_correct N m) (cm_total N m)) (cm_correct N m) (cm_total N m)"

definition output_micro :: "nat \<Rightarrow> confusion_matrix \<Rightarrow> nat list \<Rightarrow> log_line" where
  "output_micro N m positive_labels =
     (let num_match = sum_list (map (\<lambda>l. m l l) positive_labels);
          num_reference = sum_list (map (\<lambda>l. sum_list (map (\<lambda>p. m l p) [0..<N])) positive_labels);
          num_prediction = sum_list (map (\<lambda>l. sum_list (map (\<lambda>r. m r l) [0..<N])) positive_labels);
          precision = ratio num_match num_prediction;
          recall = ratio num_match num_reference;
          f1 = (if 0 < precision + recall then 2 * precision * recall / (precision + recall) else 0)
      in Micro_average precision recall f1)"

section \<open>Holdout evaluation and progress of the binary trainer\<close>

text \<open>
  The instance loop of \<^verbatim>\<open>trainer_logress::holdout_evaluation\<close> (logress.h, lines
  469-491) on the pair (confusion matrix, lines written): the reference label is
  \<open>1\<close> for a true instance and \<open>0\<close> otherwise, the model label is \<open>0\<close> when
  \<^verbatim>\<open>z <= 0.\<close> and \<open>1\<close> otherwise.
\<close>

definition logress_holdout_instance :: "trainer_logress \<Rightarrow> bool \<Rightarrow> binary_instance \<Rightarrow>
    confusion_matrix \<times> log_line list \<Rightarrow> confusion_matrix \<times> log_line list" where
  "logress_holdout_instance tr false_analysis iti = (\<lambda>(matrix, os).
     if bi_group iti \<noteq> lr_holdout tr then (matrix, os)
     else
       (let z = inner_product (bi_features iti) (lr_weights tr);
            rl = (if bi_truth iti then 1 else 0);
            ml = (if z \<le> 0 then 0 else 1);
            os' = (if false_analysis \<and> rl \<noteq> ml then
                     os @ [False_analysis_comment (bi_comment iti),
                           False_analysis_prediction (if ml = 0 then ''-1'' else ''+1'') z]
                   else os)
        in (cm_increment matrix rl ml, os')))"

text \<open>
  \<^verbatim>\<open>trainer_logress::holdout_evaluation\<close> (lines 458-499): a 2x2 matrix, the
  positive label set \<open>{1}\<close>. The result is the final matrix and the lines written.
\<close>

definition logress_holdout_evaluation :: "trainer_logress \<Rightarrow> bool \<Rightarrow>
    confusion_matrix \<times> log_line list" where
  "logress_holdout_evaluation tr false_analysis =
     (let positive_labels = [1];
          os0 = (if false_analysis then [False_analysis_begin] else []);
          (matrix, os1) = fold (logress_holdout_instance tr false_analysis) (lr_data tr) (cm_empty, os0);
          os2 = (if false_analysis then os1 @ [False_analysis_end] else os1)
      in (matrix, os2 @ [output_accuracy 2 matrix, output_micro 2 matrix positive_labels]))"

text \<open>
  The lines both trainers write at the start of \<^verbatim>\<open>lbfgs_progress\<close> (logress.h
  lines 352-376, maxent.h lines 212-236), the same text in both classes.
\<close>

definition progress_report :: "real list \<Rightarrow> real \<Rightarrow> real \<Rightarrow> real \<Rightarrow> real \<Rightarrow> nat \<Rightarrow> int \<Rightarrow> int \<Rightarrow>
    int \<Rightarrow> log_line list" where
  "progress_report x fx xnorm gnorm step n k ls duration =
     (let num_active = fold (\<lambda>i num_active. if x ! i \<noteq> 0 then Suc num_active else num_active) [0..<n] 0
      in [Iteration k, Log_likelihood (- fx), Feature_norm xnorm, Error_norm gnorm,
          Active_features num_active n, Line_search_trials ls, Line_search_step step,
          Iteration_ticks duration])"

text \<open>
  \<^verbatim>\<open>trainer_logress::lbfgs_progress\<close> (lines 341-388). The result is the trainer
  (with the new time stamp), the lines written and the returned integer, which the
  source gives as the literal \<^verbatim>\<open>return 0\<close>.
\<close>

definition logress_lbfgs_progress :: "trainer_logress \<Rightarrow> real list \<Rightarrow> real list \<Rightarrow> real \<Rightarrow> real \<Rightarrow>
    real \<Rightarrow> real \<Rightarrow> nat \<Rightarrow> int \<Rightarrow> int \<Rightarrow> int \<Rightarrow> trainer_logress \<times> log_line list \<times> int" where
  "logress_lbfgs_progress tr x g fx xnorm gnorm step n k ls clk =
     (let duration = clk - lr_clk_prev tr;
          tr' = tr\<lparr>lr_clk_prev := clk\<rparr>;
          os = progress_report x fx xnorm gnorm step n k ls duration;
          os' = (if lr_holdout tr' \<noteq> -1 then os @ snd (logress_holdout_evaluation tr' False) else os)
      in (tr', os' @ [Empty_line], 0))"


section \<open>Maximum entropy trainer (maxent.h)\<close>

record trainer_maxent =
  me_oexps :: "real list"
  me_mexps :: "real list"
  me_weights :: "real list"
  me_holdout :: int
  me_maxiter :: int
  me_epsilon :: real
  me_c1 :: real
  me_c2 :: real
  me_data :: "multi_instance list"
  me_clk_prev :: int

text \<open>The constructor \<^verbatim>\<open>trainer_maxent()\<close> (lines 67-81); null arrays are empty lists.\<close>

definition trainer_maxent_new :: trainer_maxent where
  "trainer_maxent_new =
     \<lparr>me_oexps = [], me_mexps = [], me_weights = [], me_holdout = -1, me_maxiter = 1000,
      me_epsilon = 1 / 100000, me_c1 = 0, me_c2 = 0, me_data = [], me_clk_prev = 0\<rparr>"

text \<open>\<^verbatim>\<open>trainer_maxent::parse_param\<close> (lines 103-111): \<open>Some\<close> of the text after
  the name when the parameter starts with the name.\<close>

definition parse_param :: "string \<Rightarrow> string \<Rightarrow> string option" where
  "parse_param param name =
     (if take (length name) param = name then Some (drop (length name) param) else None)"

text \<open>
  The C library's \<^verbatim>\<open>atoi\<close>, which returns an \<^verbatim>\<open>int\<close> (32 bits): leading white
  space is skipped, an optional sign is read, then decimal digits up to the first
  other character; no digit gives \<open>0\<close>. \<open>atoi_value\<close> is the number the text
  denotes. Where that number is not representable in \<^verbatim>\<open>int\<close> the C standard leaves
  the behaviour of \<^verbatim>\<open>atoi\<close> undefined (an implementation may wrap the value): the
  result is \<open>None\<close> there.
\<close>

definition isspace :: "char \<Rightarrow> bool" where
  "isspace c = (c \<in> set [CHR '' '', CHR 0x09, CHR 0x0A, CHR 0x0B, CHR 0x0C, CHR 0x0D])"

definition isdigit :: "char \<Rightarrow> bool" where
  "isdigit c = (c \<in> set ''0123456789'')"

fun atoi_digits :: "string \<Rightarrow> int \<Rightarrow> int" where
  "atoi_digits [] acc = acc"
| "atoi_digits (c # cs) acc =
     (if isdigit c then atoi_digits cs (10 * acc + (of_char c - 48)) else acc)"

definition atoi_value :: "string \<Rightarrow> int" where
  "atoi_value str =
     (case dropWhile isspace str of
        [] \<Rightarrow> 0
      | c # cs \<Rightarrow>
          if c = CHR ''-'' then - atoi_digits cs 0
          else if c = CHR ''+'' then atoi_digits cs 0
          else atoi_digits (c # cs) 0)"

definition INT_MIN :: int where
  "INT_MIN = - 2147483648"

definition INT_MAX :: int where
  "INT_MAX = 2147483647"

definition atoi :: "string \<Rightarrow> int option" where
  "atoi str =
     (let v = atoi_value str
      in if INT_MIN \<le> v \<and> v \<le> INT_MAX then Some v else None)"

text \<open>
  \<^verbatim>\<open>trainer_maxent::set\<close> (lines 113-133). The result is \<open>None\<close> where \<^verbatim>\<open>atoi\<close> is
  undefined. Otherwise it is the trainer as the call leaves it and the returned
  \<^verbatim>\<open>bool\<close>, which is \<open>None\<close> where control reaches the end of the function, which
  has no \<^verbatim>\<open>return\<close> statement there.
\<close>

definition maxent_set :: "trainer_maxent \<Rightarrow> string \<Rightarrow> (trainer_maxent \<times> bool option) option" where
  "maxent_set tr param =
     (case parse_param param ''regularization.l1='' of
        Some str \<Rightarrow>
          (case atoi str of
             None \<Rightarrow> None
           | Some i \<Rightarrow>
               (let d = real_of_int i
                in Some (tr\<lparr>me_c1 := (if d \<le> 0 then 0 else 1 / d)\<rparr>, Some True)))
      | None \<Rightarrow>
     (case parse_param param ''regularization.l2='' of
        Some str \<Rightarrow>
          (case atoi str of
             None \<Rightarrow> None
           | Some i \<Rightarrow>
               (let d = real_of_int i
                in Some (tr\<lparr>me_c2 := (if d \<le> 0 then 0 else 1 / d)\<rparr>, Some True)))
      | None \<Rightarrow>
     (case parse_param param ''lbfgs.maxiter='' of
        Some str \<Rightarrow>
          (case atoi str of
             None \<Rightarrow> None
           | Some i \<Rightarrow> Some (tr\<lparr>me_maxiter := i\<rparr>, Some True))
      | None \<Rightarrow>
     (case parse_param param ''lbfgs.epsilon='' of
        Some str \<Rightarrow>
          (case atoi str of
             None \<Rightarrow> None
           | Some i \<Rightarrow> Some (tr\<lparr>me_epsilon := real_of_int i\<rparr>, Some True))
      | None \<Rightarrow> Some (tr, None)))))"

text \<open>
  The first candidate loop of \<^verbatim>\<open>trainer_maxent::lbfgs_evaluate\<close> (lines 167-172),
  on the scores stored so far, \<^verbatim>\<open>logp\<close> and \<^verbatim>\<open>norm\<close> (written \<open>nrm\<close>); \<open>i\<close> is the loop counter and
  \<^verbatim>\<open>m_scores[i]\<close> is the \<open>i\<close>-th element of the score list.
\<close>

fun maxent_scores :: "real list \<Rightarrow> candidate list \<Rightarrow> nat \<Rightarrow> real list \<times> real \<times> real \<Rightarrow>
    real list \<times> real \<times> real" where
  "maxent_scores x [] i acc = acc"
| "maxent_scores x (itc # rest) i (m_scores, logp, nrm) =
     (let s = inner_product (cand_features itc) x;
          logp' = (if cand_truth itc then s else logp);
          nrm' = logsumexp nrm s (i = 0)
      in maxent_scores x rest (Suc i) (m_scores @ [s], logp', nrm'))"

text \<open>The second candidate loop (lines 174-177): the model expectations.\<close>

fun maxent_expectations :: "candidate list \<Rightarrow> nat \<Rightarrow> real list \<Rightarrow> real \<Rightarrow> real list \<Rightarrow> real list" where
  "maxent_expectations [] i m_scores nrm m_mexps = m_mexps"
| "maxent_expectations (itc # rest) i m_scores nrm m_mexps =
     maxent_expectations rest (Suc i) m_scores nrm
       (add_features (cand_features itc) m_mexps (exp (m_scores ! i - nrm)))"

text \<open>The body of the instance loop (lines 157-181) on the pair
  (model expectations, loss).\<close>

definition maxent_instance :: "int \<Rightarrow> real list \<Rightarrow> multi_instance \<Rightarrow>
    real list \<times> real \<Rightarrow> real list \<times> real" where
  "maxent_instance holdout x iti = (\<lambda>(m_mexps, loss).
     if mi_group iti = holdout then (m_mexps, loss)
     else
       (let (m_scores, logp, norm) = maxent_scores x (mi_candidates iti) 0 ([], 0, 0);
            m_mexps' = maxent_expectations (mi_candidates iti) 0 m_scores norm m_mexps
        in (m_mexps', loss - (logp - norm))))"

text \<open>The L2 block of \<^verbatim>\<open>trainer_maxent::lbfgs_evaluate\<close> (lines 188-196); the loop
  starts at \<open>0\<close>.\<close>

definition maxent_l2 :: "real \<Rightarrow> real list \<Rightarrow> nat \<Rightarrow> real list \<times> real \<Rightarrow> real list \<times> real" where
  "maxent_l2 c2 x n = (\<lambda>(g, loss).
     if c2 \<noteq> 0 then
       (let (g', norm) =
              fold (\<lambda>i (g, norm). (g[i := g ! i + c2 * x ! i], norm + x ! i * x ! i))
                [0..<n] (g, 0)
        in (g', loss + c2 * norm * 0.5))
     else (g, loss))"

text \<open>
  \<^verbatim>\<open>trainer_maxent::lbfgs_evaluate\<close> (lines 140-199). The result is the trainer
  with the model expectations it has stored in \<^verbatim>\<open>m_mexps\<close>, the final content of
  the gradient buffer and the returned loss.
\<close>

definition maxent_lbfgs_evaluate :: "trainer_maxent \<Rightarrow> real list \<Rightarrow> real list \<Rightarrow> nat \<Rightarrow> real \<Rightarrow>
    trainer_maxent \<times> real list \<times> real" where
  "maxent_lbfgs_evaluate tr x g n step =
     (let mexps0 = fold (\<lambda>i m. m[i := 0]) [0..<n] (me_mexps tr);
          (mexps, loss) = fold (maxent_instance (me_holdout tr) x) (me_data tr) (mexps0, 0);
          g1 = fold (\<lambda>i g. g[i := - (me_oexps tr ! i - mexps ! i)]) [0..<n] g;
          (g2, loss2) = maxent_l2 (me_c2 tr) x n (g1, loss)
      in (tr\<lparr>me_mexps := mexps\<rparr>, g2, loss2))"


text \<open>
  The part of \<^verbatim>\<open>trainer_maxent::train\<close> before the call of the external solver
  (lines 261-314): the arrays are allocated and zeroed, the holdout group stored and
  the observation expectations accumulated from the true candidates of the instances
  outside the holdout group. \<open>K\<close> is \<^verbatim>\<open>data.num_features()\<close>.
\<close>

definition maxent_observation :: "int \<Rightarrow> multi_instance \<Rightarrow> real list \<Rightarrow> real list" where
  "maxent_observation holdout iti m_oexps =
     (if mi_group iti = holdout then m_oexps
      else fold (\<lambda>itc oexps. if cand_truth itc then add_features (cand_features itc) oexps 1 else oexps)
             (mi_candidates iti) m_oexps)"

definition maxent_train_setup :: "trainer_maxent \<Rightarrow> multi_instance list \<Rightarrow> nat \<Rightarrow> int \<Rightarrow> int \<Rightarrow>
    trainer_maxent" where
  "maxent_train_setup tr data K holdout clk =
     tr\<lparr>me_oexps := fold (maxent_observation holdout) data (replicate K 0),
        me_mexps := replicate K 0, me_weights := replicate K 0,
        me_holdout := holdout, me_data := data, me_clk_prev := clk\<rparr>"

text \<open>
  \<^verbatim>\<open>DBL_MAX\<close> of float.h, the largest finite double: \<open>(2\<^sup>5\<^sup>3 - 1) * 2\<^sup>9\<^sup>7\<^sup>1\<close>.
\<close>

definition DBL_MAX :: real where
  "DBL_MAX = (2 ^ 53 - 1) * 2 ^ 971"

text \<open>
  The candidate loop of \<^verbatim>\<open>trainer_maxent::holdout_evaluation\<close> (lines 346-354) on
  the pair (\<^verbatim>\<open>score_max\<close>, \<^verbatim>\<open>itc_max\<close>). An iterator is the position of the
  candidate in the instance, \<open>None\<close> is the end iterator \<^verbatim>\<open>iti->end()\<close>; \<open>i\<close> is
  the position of \<^verbatim>\<open>itc\<close>.
\<close>

fun maxent_argmax :: "real list \<Rightarrow> candidate list \<Rightarrow> nat \<Rightarrow> real \<times> nat option \<Rightarrow> real \<times> nat option" where
  "maxent_argmax m_weights [] i acc = acc"
| "maxent_argmax m_weights (itc # rest) i (score_max, itc_max) =
     (let score = inner_product (cand_features itc) m_weights
      in if score_max < score then maxent_argmax m_weights rest (Suc i) (score, Some i)
         else maxent_argmax m_weights rest (Suc i) (score_max, itc_max))"

text \<open>
  The instance loop of \<^verbatim>\<open>trainer_maxent::holdout_evaluation\<close> (lines 336-361) on
  the pair (\<^verbatim>\<open>num_correct\<close>, \<^verbatim>\<open>num_total\<close>). \<^verbatim>\<open>itc_max->is_true()\<close> dereferences
  the iterator; the result is \<open>None\<close> where it is the end iterator, which has no
  candidate to read (undefined behaviour in the source).
\<close>

fun maxent_holdout_loop :: "trainer_maxent \<Rightarrow> multi_instance list \<Rightarrow> nat \<times> nat \<Rightarrow> (nat \<times> nat) option" where
  "maxent_holdout_loop tr [] acc = Some acc"
| "maxent_holdout_loop tr (iti # rest) (num_correct, num_total) =
     (if mi_group iti \<noteq> me_holdout tr then maxent_holdout_loop tr rest (num_correct, num_total)
      else
        (case snd (maxent_argmax (me_weights tr) (mi_candidates iti) 0 (- DBL_MAX, None)) of
           None \<Rightarrow> None
         | Some j \<Rightarrow>
             maxent_holdout_loop tr rest
               (if cand_truth (mi_candidates iti ! j) then Suc num_correct else num_correct,
                Suc num_total)))"

text \<open>
  \<^verbatim>\<open>trainer_maxent::holdout_evaluation\<close> (lines 329-369): the lines written, or
  \<open>None\<close> when the end iterator is dereferenced.
\<close>

definition maxent_holdout_evaluation :: "trainer_maxent \<Rightarrow> log_line list option" where
  "maxent_holdout_evaluation tr =
     (case maxent_holdout_loop tr (me_data tr) (0, 0) of
        None \<Rightarrow> None
      | Some (num_correct, num_total) \<Rightarrow>
          (let accuracy = (if 0 < num_total then real num_correct / real num_total else 0)
           in Some [Accuracy accuracy num_correct num_total]))"

text \<open>
  \<^verbatim>\<open>trainer_maxent::lbfgs_progress\<close> (lines 201-253): the trainer with the new
  time stamp, the lines written and the returned integer; \<open>None\<close> when the holdout
  evaluation it calls dereferences the end iterator.
\<close>

definition maxent_lbfgs_progress :: "trainer_maxent \<Rightarrow> real list \<Rightarrow> real list \<Rightarrow> real \<Rightarrow> real \<Rightarrow>
    real \<Rightarrow> real \<Rightarrow> nat \<Rightarrow> int \<Rightarrow> int \<Rightarrow> int \<Rightarrow> (trainer_maxent \<times> log_line list \<times> int) option" where
  "maxent_lbfgs_progress tr x g fx xnorm gnorm step n k ls clk =
     (let duration = clk - me_clk_prev tr;
          tr' = tr\<lparr>me_clk_prev := clk\<rparr>;
          os = progress_report x fx xnorm gnorm step n k ls duration;
          ret = (if me_maxiter tr' < k then 1 else 0)
      in if me_holdout tr' \<noteq> -1 then
           (case maxent_holdout_evaluation tr' of
              None \<Rightarrow> None
            | Some ev \<Rightarrow> Some (tr', os @ ev @ [Empty_line], ret))
         else Some (tr', os @ [Empty_line], ret))"

section \<open>Multi-class trainer (train/lbfgs/multi.h)\<close>

text \<open>
  Modelled from the spec: \<^verbatim>\<open>cls.inner_product\<close> of the classifier
  \<^verbatim>\<open>classify::linear_multi_logistic\<close> and \<^verbatim>\<open>feature_generator.add_to\<close> of the data
  set, neither among the sources. Section 4.2: the inner product of the weights with
  the expanded features of a label, and the accumulation of \<open>scale * value\<close> into the
  buffer entry of every expanded feature. The generator itself is a parameter:
  \<open>forward a l\<close> is the feature identifier it gives the attribute \<open>a\<close> with the
  label \<open>l\<close>.
\<close>

definition fg_inner_product :: "(nat \<Rightarrow> nat \<Rightarrow> nat) \<Rightarrow> real list \<Rightarrow> features_type \<Rightarrow> nat \<Rightarrow> real" where
  "fg_inner_product forward x attrs l = fold (\<lambda>(a, value) s. s + x ! forward a l * value) attrs 0"

definition fg_add_to :: "(nat \<Rightarrow> nat \<Rightarrow> nat) \<Rightarrow> real list \<Rightarrow> features_type \<Rightarrow> nat \<Rightarrow> real \<Rightarrow> real list" where
  "fg_add_to forward g attrs l scale =
     fold (\<lambda>(a, value) g. g[forward a l := g ! forward a l + scale * value]) attrs g"

text \<open>
  \<^verbatim>\<open>trainer_lbfgs_multi::loss_and_gradient\<close> (lines 76-121): the body of its
  instance loop on the pair (gradient, loss), and the function. \<open>finalize\<close>, a
  parameter, turns the scores of the labels into the probabilities the source reads
  with \<^verbatim>\<open>cls.prob(i)\<close> after \<^verbatim>\<open>cls.finalize()\<close>; \<open>L\<close> is
  \<^verbatim>\<open>data.num_labels()\<close>; \<^verbatim>\<open>m_oexps\<close> and \<^verbatim>\<open>m_holdout\<close> are members of the trainer
  and of its base class.
\<close>

definition multi_instance_step :: "(nat \<Rightarrow> nat \<Rightarrow> nat) \<Rightarrow> (real list \<Rightarrow> real list) \<Rightarrow> int \<Rightarrow> nat \<Rightarrow>
    real list \<Rightarrow> attribute_instance \<Rightarrow> real list \<times> real \<Rightarrow> real list \<times> real" where
  "multi_instance_step forward finalize holdout L x inst = (\<lambda>(g, loss).
     if ai_group inst = holdout then (g, loss)
     else
       (let prob = finalize (map (fg_inner_product forward x (ai_attributes inst)) [0..<L]);
            g' = fold (\<lambda>i g. fg_add_to forward g (ai_attributes inst) i (prob ! i)) [0..<L] g
        in (g', loss - ln (prob ! ai_label inst))))"

definition loss_and_gradient :: "(nat \<Rightarrow> nat \<Rightarrow> nat) \<Rightarrow> (real list \<Rightarrow> real list) \<Rightarrow> real list \<Rightarrow> int \<Rightarrow>
    attribute_instance list \<Rightarrow> nat \<Rightarrow> real list \<Rightarrow> real list \<Rightarrow> nat \<Rightarrow> real list \<times> real" where
  "loss_and_gradient forward finalize m_oexps m_holdout data L x g n =
     (let g0 = fold (\<lambda>i g. g[i := - m_oexps ! i]) [0..<n] g
      in fold (multi_instance_step forward finalize m_holdout L x) data (g0, 0))"


section \<open>Observation expectations of the multi-class trainer\<close>

text \<open>
  The loop of \<^verbatim>\<open>trainer_lbfgs_multi::train\<close> that computes the observation
  expectations (multi.h, lines 144-154), from the zeroed array of lines 134-137. It
  tests the member \<^verbatim>\<open>m_holdout\<close>, which belongs to the base class
  \<^verbatim>\<open>lbfgs_base\<close> and which \<^verbatim>\<open>train\<close> does not assign: its argument \<^verbatim>\<open>holdout\<close>
  goes to \<^verbatim>\<open>lbfgs_solve\<close> only, in line 161, after the loop. \<open>m_holdout\<close> is the
  value the member has when \<^verbatim>\<open>train\<close> is entered.
\<close>

definition multi_observation :: "(nat \<Rightarrow> nat \<Rightarrow> nat) \<Rightarrow> int \<Rightarrow> attribute_instance \<Rightarrow> real list \<Rightarrow> real list" where
  "multi_observation forward m_holdout iti m_oexps =
     (if ai_group iti = m_holdout then m_oexps
      else fg_add_to forward m_oexps (ai_attributes iti) (ai_label iti) 1)"

definition multi_train_oexps :: "(nat \<Rightarrow> nat \<Rightarrow> nat) \<Rightarrow> int \<Rightarrow> attribute_instance list \<Rightarrow> nat \<Rightarrow> real list" where
  "multi_train_oexps forward m_holdout data K =
     fold (multi_observation forward m_holdout) data (replicate K 0)"

text \<open>
  Modelled from the spec: \<^verbatim>\<open>lbfgs_base::lbfgs_solve\<close> (base.h, not among the
  sources), as far as the holdout group goes. Section 4.3 and 6: the evaluator
  excludes the instances of the active holdout group, the one given to \<^verbatim>\<open>train\<close>;
  \<^verbatim>\<open>train\<close> hands it to \<^verbatim>\<open>lbfgs_solve\<close>, so the solver calls
  \<^verbatim>\<open>loss_and_gradient\<close> with \<^verbatim>\<open>m_holdout\<close> equal to it, on the observation
  expectations the loop above has left in \<^verbatim>\<open>m_oexps\<close>. This is such a call.
\<close>

definition multi_train_evaluate :: "(nat \<Rightarrow> nat \<Rightarrow> nat) \<Rightarrow> (real list \<Rightarrow> real list) \<Rightarrow> int \<Rightarrow>
    attribute_instance list \<Rightarrow> nat \<Rightarrow> nat \<Rightarrow> int \<Rightarrow> real list \<Rightarrow> real list \<Rightarrow> real list \<times> real" where
  "multi_train_evaluate forward finalize m_holdout data K L holdout x g =
     loss_and_gradient forward finalize (multi_train_oexps forward m_holdout data K) holdout data L x g K"


section \<open>Reading training data (frontend/train)\<close>

text \<open>
  Modelled from the spec: the symbol dictionary (quark) of the data set, which is
  not among the sources. Section 3 and 4.1: identifiers are assigned in first-seen
  order starting at \<open>0\<close>; \<open>intern\<close> returns the identifier of a known name and
  creates the next identifier for a new one. The dictionary is the list of its
  names, the identifier of a name is its position.
\<close>

type_synonym quark = "string list"

fun quark_find :: "quark \<Rightarrow> string \<Rightarrow> nat \<Rightarrow> nat option" where
  "quark_find [] name i = None"
| "quark_find (k # ks) name i = (if k = name then Some i else quark_find ks name (Suc i))"

definition intern :: "quark \<Rightarrow> string \<Rightarrow> nat \<times> quark" where
  "intern q name =
     (case quark_find q name 0 of
        Some i \<Rightarrow> (i, q)
      | None \<Rightarrow> (length q, q @ [name]))"

datatype error = invalid_data string int

text \<open>
  What a call that may throw leaves behind: \<open>Returned s\<close> is the normal return with
  the objects the call writes to in the state \<open>s\<close>; \<open>Thrown e s\<close> is the exception
  \<open>e\<close> leaving the call, with those objects in the state \<open>s\<close> they have at that
  moment (C++ does not undo what was written before a \<^verbatim>\<open>throw\<close>); \<open>Undefined\<close> is
  undefined behaviour.
\<close>

datatype 'a outcome = Returned 'a | Thrown error 'a | Undefined

text \<open>The messages of \<^verbatim>\<open>invalid_data\<close>; the third one contains the
  apostrophe, character \<open>0x27\<close>.\<close>

definition msg_no_field :: string where
  "msg_no_field = ''no field found in the line''"

definition msg_empty_label :: string where
  "msg_empty_label = ''an empty label found''"

definition msg_class_label :: string where
  "msg_class_label =
     ''a class label must begins with either '' @ [CHR 0x27, CHR ''T'', CHR 0x27] @ '' or ''
       @ [CHR 0x27, CHR ''F'', CHR 0x27]"

definition msg_unregularize :: string where
  "msg_unregularize = ''Declarative @unregularize must precede an instance''"

text \<open>
  The feature loop shared by both \<^verbatim>\<open>read_line\<close> functions (train/multi.cpp lines
  109-117, train/attribute.cpp lines 89-97): every non-empty field is split by
  \<^verbatim>\<open>get_name_value\<close>, its name is interned and the pair (identifier, value) is
  appended. \<^verbatim>\<open>get_name_value\<close> is declared outside the sources and is a parameter.
\<close>

fun read_fields :: "(string \<Rightarrow> string \<times> real) \<Rightarrow> string list \<Rightarrow> features_type \<times> quark \<Rightarrow>
    features_type \<times> quark" where
  "read_fields get_name_value [] acc = acc"
| "read_fields get_name_value (itv # rest) (fs, features) =
     (if itv \<noteq> [] then
        (let (name, value) = get_name_value itv;
             (fid, features') = intern features name
         in read_fields get_name_value rest (fs @ [(fid, value)], features'))
      else read_fields get_name_value rest (fs, features))"

text \<open>
  \<^verbatim>\<open>read_line\<close> of train/multi.cpp (lines 62-118). \<open>tokenizer\<close> is the class of
  tokenize.h, which is not among the sources: \<open>tokenizer line c\<close> is the sequence of
  fields its iterator yields for the separator \<open>c\<close>. The state is the instance, the
  feature dictionary and the label dictionary the function has references to; every
  \<^verbatim>\<open>throw\<close> of the source comes before its first write to them.
\<close>

definition multi_read_line :: "(string \<Rightarrow> char \<Rightarrow> string list) \<Rightarrow> (string \<Rightarrow> string \<times> real) \<Rightarrow>
    string \<Rightarrow> multi_instance \<Rightarrow> quark \<Rightarrow> quark \<Rightarrow> int \<Rightarrow>
    (multi_instance \<times> quark \<times> quark) outcome" where
  "multi_read_line tokenizer get_name_value line instance features labels lines =
     (case tokenizer line (CHR 0x09) of
        [] \<Rightarrow> Thrown (invalid_data msg_no_field lines) (instance, features, labels)
      | itv # rest \<Rightarrow>
          if itv = [] then Thrown (invalid_data msg_empty_label lines) (instance, features, labels)
          else
            (case (if take 1 itv = ''T'' then Some True
                   else if take 1 itv = ''F'' then Some False
                   else None) of
               None \<Rightarrow> Thrown (invalid_data msg_class_label lines) (instance, features, labels)
             | Some truth \<Rightarrow>
                 (let (lid, labels') = intern labels itv;
                      (fs, features') = read_fields get_name_value rest ([], features);
                      cand = \<lparr>cand_features = fs, cand_truth = truth, cand_label = lid\<rparr>
                  in Returned (instance\<lparr>mi_candidates := mi_candidates instance @ [cand]\<rparr>,
                               features', labels'))))"

text \<open>
  \<^verbatim>\<open>read_line\<close> of train/attribute.cpp (lines 59-98); the attributes are appended
  to those the instance already has.
\<close>

definition attribute_read_line :: "(string \<Rightarrow> char \<Rightarrow> string list) \<Rightarrow> (string \<Rightarrow> string \<times> real) \<Rightarrow>
    string \<Rightarrow> attribute_instance \<Rightarrow> quark \<Rightarrow> quark \<Rightarrow> int \<Rightarrow>
    (attribute_instance \<times> quark \<times> quark) outcome" where
  "attribute_read_line tokenizer get_name_value line instance attributes labels lines =
     (case tokenizer line (CHR 0x09) of
        [] \<Rightarrow> Thrown (invalid_data msg_no_field lines) (instance, attributes, labels)
      | itv # rest \<Rightarrow>
          if itv = [] then Thrown (invalid_data msg_empty_label lines) (instance, attributes, labels)
          else
            (let (lid, labels') = intern labels itv;
                 (fs, attributes') = read_fields get_name_value rest (ai_attributes instance, attributes)
             in Returned (instance\<lparr>ai_label := lid, ai_attributes := fs\<rparr>, attributes', labels')))"

section \<open>Reading a stream (frontend/train)\<close>

text \<open>
  Modelled from the spec: the members of the data set classes (base.h, not among
  the sources) that \<^verbatim>\<open>read_stream\<close> uses. Section 3 and 6: a data set owns its
  dictionaries and the ordered sequence of its instances; \<^verbatim>\<open>new_element()\<close> appends
  a new instance and returns a reference to it, \<^verbatim>\<open>back()\<close> is the last instance;
  a data set of candidates also keeps the start index of the user features and the
  positive labels. What \<^verbatim>\<open>new_element()\<close> appends (the default-constructed
  instance) is the parameter \<open>fresh\<close> of the readers.
\<close>

record attribute_data =
  ad_instances :: "attribute_instance list"
  ad_features :: quark
  ad_labels :: quark

record multi_data =
  md_instances :: "multi_instance list"
  md_features :: quark
  md_labels :: quark
  md_user_feature_start :: nat
  md_positive_labels :: "nat list"

text \<open>
  \<^verbatim>\<open>read_stream\<close> of train/attribute.cpp (lines 100-154). The stream is the list
  of its lines, each ended by a newline (\<^verbatim>\<open>getline\<close> followed by the \<^verbatim>\<open>eof\<close> test
  reads those and no unfinished last line); \<open>lines\<close> counts the lines read. The
  call \<^verbatim>\<open>read_line(line, data.new_element(), data.features, data.labels, opt, lines)\<close>
  appends the new instance to the data set when its arguments are evaluated, before
  \<^verbatim>\<open>read_line\<close> runs; an exception of \<^verbatim>\<open>read_line\<close> is not caught and leaves
  \<^verbatim>\<open>read_stream\<close> with the data set as it is then.
\<close>

fun attribute_read_stream :: "(string \<Rightarrow> char \<Rightarrow> string list) \<Rightarrow> (string \<Rightarrow> string \<times> real) \<Rightarrow>
    attribute_instance \<Rightarrow> string list \<Rightarrow> attribute_data \<Rightarrow> int \<Rightarrow> attribute_data outcome" where
  "attribute_read_stream tokenizer get_name_value fresh [] data lines = Returned data"
| "attribute_read_stream tokenizer get_name_value fresh (line # rest) data lines =
     (if line = [] then attribute_read_stream tokenizer get_name_value fresh rest data (lines + 1)
      else if take 1 line = ''#'' then
        attribute_read_stream tokenizer get_name_value fresh rest data (lines + 1)
      else
        (case attribute_read_line tokenizer get_name_value line fresh
                (ad_features data) (ad_labels data) (lines + 1) of
           Returned (inst, features', labels') \<Rightarrow>
             attribute_read_stream tokenizer get_name_value fresh rest
               (data\<lparr>ad_instances := ad_instances data @ [inst], ad_features := features',
                     ad_labels := labels'\<rparr>) (lines + 1)
         | Thrown e (inst, features', labels') \<Rightarrow>
             Thrown e (data\<lparr>ad_instances := ad_instances data @ [inst], ad_features := features',
                             ad_labels := labels'\<rparr>)
         | Undefined \<Rightarrow> Undefined))"

text \<open>
  The line loop of \<^verbatim>\<open>read_stream\<close> of train/multi.cpp (lines 137-186). The
  declaration \<^verbatim>\<open>@unregularize\<close> interns the names of its fields after the first
  one ("features that should not be regularized", "reserve early feature
  identifiers") and sets the start index of the user features to the size of the
  feature dictionary; \<^verbatim>\<open>@boi\<close> appends a new instance of the group \<open>grp\<close>; any other line
  is a candidate of the last instance, \<^verbatim>\<open>data.back()\<close>, which is undefined for a
  data set without instances.
\<close>

fun multi_read_lines :: "(string \<Rightarrow> char \<Rightarrow> string list) \<Rightarrow> (string \<Rightarrow> string \<times> real) \<Rightarrow>
    multi_instance \<Rightarrow> int \<Rightarrow> string list \<Rightarrow> multi_data \<Rightarrow> int \<Rightarrow> multi_data outcome" where
  "multi_read_lines tokenizer get_name_value fresh grp [] data lines = Returned data"
| "multi_read_lines tokenizer get_name_value fresh grp (line # rest) data lines =
     (if line = [] then multi_read_lines tokenizer get_name_value fresh grp rest data (lines + 1)
      else if take 1 line = ''#'' then
        multi_read_lines tokenizer get_name_value fresh grp rest data (lines + 1)
      else if take 14 line = ''@unregularize'' @ [CHR 0x09] then
        (if 0 < length (md_features data) then Thrown (invalid_data msg_unregularize (lines + 1)) data
         else
           (case tokenizer line (CHR 0x09) of
              [] \<Rightarrow> Undefined
            | itv # names \<Rightarrow>
                multi_read_lines tokenizer get_name_value fresh grp rest
                  (data\<lparr>md_features := fold (\<lambda>name features. snd (intern features name)) names (md_features data),
                        md_user_feature_start :=
                          length (fold (\<lambda>name features. snd (intern features name)) names (md_features data))\<rparr>)
                  (lines + 1)))
      else if take 4 line = ''@boi'' then
        multi_read_lines tokenizer get_name_value fresh grp rest
          (data\<lparr>md_instances := md_instances data @ [fresh\<lparr>mi_group := grp\<rparr>]\<rparr>) (lines + 1)
      else if take 4 line = ''@eoi'' then
        multi_read_lines tokenizer get_name_value fresh grp rest data (lines + 1)
      else if take 9 line = ''@negative'' then
        multi_read_lines tokenizer get_name_value fresh grp rest data (lines + 1)
      else if md_instances data = [] then Undefined
      else
        (case multi_read_line tokenizer get_name_value line (last (md_instances data))
                (md_features data) (md_labels data) (lines + 1) of
           Returned (inst, features', labels') \<Rightarrow>
             multi_read_lines tokenizer get_name_value fresh grp rest
               (data\<lparr>md_instances := butlast (md_instances data) @ [inst], md_features := features',
                     md_labels := labels'\<rparr>) (lines + 1)
         | Thrown e (inst, features', labels') \<Rightarrow>
             Thrown e (data\<lparr>md_instances := butlast (md_instances data) @ [inst],
                             md_features := features', md_labels := labels'\<rparr>)
         | Undefined \<Rightarrow> Undefined))"

text \<open>
  The end of \<^verbatim>\<open>read_stream\<close> of train/multi.cpp (lines 188-200): the label \<open>TP\<close>
  becomes a positive label and, where \<^verbatim>\<open>opt.generate_bias\<close> is set, every candidate
  gets the bias feature of its label, named \<open>@bias@\<close> followed by the name of the
  label.
\<close>

fun bias_candidates :: "quark \<Rightarrow> candidate list \<Rightarrow> quark \<Rightarrow> candidate list \<times> quark" where
  "bias_candidates labels [] features = ([], features)"
| "bias_candidates labels (itc # rest) features =
     (let (fid, features') = intern features (''@bias@'' @ labels ! cand_label itc);
          (rest', features'') = bias_candidates labels rest features'
      in (itc\<lparr>cand_features := cand_features itc @ [(fid, 1)]\<rparr> # rest', features''))"

fun bias_instances :: "quark \<Rightarrow> multi_instance list \<Rightarrow> quark \<Rightarrow> multi_instance list \<times> quark" where
  "bias_instances labels [] features = ([], features)"
| "bias_instances labels (iti # rest) features =
     (let (cands, features') = bias_candidates labels (mi_candidates iti) features;
          (rest', features'') = bias_instances labels rest features'
      in (iti\<lparr>mi_candidates := cands\<rparr> # rest', features''))"

definition multi_read_finish :: "bool \<Rightarrow> multi_data \<Rightarrow> multi_data" where
  "multi_read_finish generate_bias data =
     (let (tp, labels') = intern (md_labels data) ''TP'';
          data1 = data\<lparr>md_labels := labels', md_positive_labels := md_positive_labels data @ [tp]\<rparr>
      in if generate_bias then
           (let (instances, features') = bias_instances (md_labels data1) (md_instances data1) (md_features data1)
            in data1\<lparr>md_instances := instances, md_features := features'\<rparr>)
         else data1)"

text \<open>\<^verbatim>\<open>read_stream\<close> of train/multi.cpp (lines 120-201).\<close>

definition multi_read_stream :: "(string \<Rightarrow> char \<Rightarrow> string list) \<Rightarrow> (string \<Rightarrow> string \<times> real) \<Rightarrow>
    multi_instance \<Rightarrow> bool \<Rightarrow> int \<Rightarrow> string list \<Rightarrow> multi_data \<Rightarrow> multi_data outcome" where
  "multi_read_stream tokenizer get_name_value fresh generate_bias grp stream data =
     (case multi_read_lines tokenizer get_name_value fresh grp stream data 0 of
        Returned data' \<Rightarrow> Returned (multi_read_finish generate_bias data')
      | Thrown e data' \<Rightarrow> Thrown e data'
      | Undefined \<Rightarrow> Undefined)"

text \<open>
  \<^verbatim>\<open>multi_train\<close> of train/multi.cpp (lines 233-244) trains a \<^verbatim>\<open>trainer_maxent\<close> on
  the data set read. The part of \<^verbatim>\<open>trainer_maxent::train\<close> before the solver reads
  the data set through its instances and \<^verbatim>\<open>data.num_features()\<close>, the size of the
  feature dictionary; it does not read the start index of the user features.
\<close>

definition maxent_train_data :: "trainer_maxent \<Rightarrow> multi_data \<Rightarrow> int \<Rightarrow> int \<Rightarrow> trainer_maxent" where
  "maxent_train_data tr data holdout clk =
     maxent_train_setup tr (md_instances data) (length (md_features data)) holdout clk"

text \<open>
  A tokenizer and a \<^verbatim>\<open>get_name_value\<close> for concrete evaluations: the fields are
  the runs between separators (none for the empty line), and a field is a name with
  the value \<open>1\<close>. The theorems hold for every choice of the two parameters.
\<close>

fun split_fields :: "string \<Rightarrow> char \<Rightarrow> string \<Rightarrow> string list" where
  "split_fields [] c cur = [rev cur]"
| "split_fields (ch # cs) c cur =
     (if ch = c then rev cur # split_fields cs c [] else split_fields cs c (ch # cur))"

definition example_tokenizer :: "string \<Rightarrow> char \<Rightarrow> string list" where
  "example_tokenizer line c = (if line = [] then [] else split_fields line c [])"

definition example_name_value :: "string \<Rightarrow> string \<times> real" where
  "example_name_value field = (field, 1)"

section \<open>The regularization policy in the words of the specification\<close>

text \<open>
  Section 4.3 of the specification, as a function on the pair (gradient, loss) of
  an evaluator that has not regularized yet: when \<open>c2\<close> is not zero, \<open>c2 * x[i]\<close> is
  added to the gradient entry of every index \<open>i\<close> with \<open>start \<le> i < K\<close>, nothing to
  the entries below \<open>start\<close>, and \<open>0.5 * c2 * \<Sum> x[i]\<^sup>2\<close> over the same indices
  to the loss. This definition follows the specification, not the source.
\<close>

definition l2_policy_spec :: "nat \<Rightarrow> real \<Rightarrow> real list \<Rightarrow> nat \<Rightarrow> real list \<times> real \<Rightarrow> real list \<times> real" where
  "l2_policy_spec start c2 x K = (\<lambda>(g, loss).
     if c2 \<noteq> 0 then
       (map (\<lambda>i. if start \<le> i \<and> i < K then g ! i + c2 * x ! i else g ! i) [0..<length g],
        loss + 0.5 * c2 * sum_list (map (\<lambda>i. x ! i * x ! i) [start..<K]))
     else (g, loss))"

section \<open>Instances the maxent holdout evaluation can score\<close>

text \<open>
  The score of a candidate under the trained weights, as
  \<^verbatim>\<open>holdout_evaluation\<close> computes it, and the instances with a candidate whose
  score exceeds the initial \<^verbatim>\<open>score_max = -DBL_MAX\<close>.
\<close>

definition cand_score :: "real list \<Rightarrow> candidate \<Rightarrow> real" where
  "cand_score m_weights itc = inner_product (cand_features itc) m_weights"

definition scorable :: "real list \<Rightarrow> multi_instance \<Rightarrow> bool" where
  "scorable m_weights iti = list_ex (\<lambda>itc. - DBL_MAX < cand_score m_weights itc) (mi_candidates iti)"

definition holdout_scorable :: "trainer_maxent \<Rightarrow> bool" where
  "holdout_scorable tr =
     list_all (\<lambda>iti. mi_group iti \<noteq> me_holdout tr \<or> scorable (me_weights tr) iti) (me_data tr)"

section \<open>Concrete inputs\<close>

text \<open>
  A binary data set with one training instance (group \<open>0\<close>) and one holdout
  instance (group \<open>1\<close>), a multi-candidate data set of the same shape, and a
  trainer of each class over them, for the concrete evaluations.
\<close>

definition example_binary_data :: "binary_instance list" where
  "example_binary_data =
     [\<lparr>bi_features = [(0, 1), (1, 2)], bi_truth = True, bi_group = 0, bi_weight = 1, bi_comment = ''a''\<rparr>,
      \<lparr>bi_features = [(1, 1)], bi_truth = False, bi_group = 1, bi_weight = 1, bi_comment = ''b''\<rparr>]"

definition example_logress :: trainer_logress where
  "example_logress =
     \<lparr>lr_weights = [1, 3], lr_data = example_binary_data, lr_holdout = 1, lr_regularization = ''L2'',
      lr_regularization_sigma = 5, lr_regularization_start = 1, lr_lbfgs_maxiter = 1,
      lr_lbfgs_linesearch = ''MoreThuente'', lr_c1 = 0, lr_c2 = 2, lr_clk_prev = 0\<rparr>"

definition example_multi_data :: "multi_instance list" where
  "example_multi_data =
     [\<lparr>mi_candidates = [\<lparr>cand_features = [(0, 1)], cand_truth = True, cand_label = 0\<rparr>], mi_group = 0\<rparr>,
      \<lparr>mi_candidates = [\<lparr>cand_features = [(1, 1)], cand_truth = False, cand_label = 1\<rparr>,
                        \<lparr>cand_features = [(0, 1)], cand_truth = True, cand_label = 0\<rparr>], mi_group = 1\<rparr>]"

definition example_maxent :: trainer_maxent where
  "example_maxent =
     \<lparr>me_oexps = [1, 0], me_mexps = [5, 5], me_weights = [1, 3], me_holdout = 1, me_maxiter = 1,
      me_epsilon = 1 / 100000, me_c1 = 0, me_c2 = 2, me_data = example_multi_data, me_clk_prev = 0\<rparr>"

text \<open>
  An attribute data set of the same shape, with a feature generator numbering the
  pair of attribute \<open>a\<close> and label \<open>l\<close> as \<open>2 * a + l\<close> and, in the place of the
  classifier, uniform probabilities over the labels.
\<close>

definition example_attribute_data :: "attribute_instance list" where
  "example_attribute_data =
     [\<lparr>ai_attributes = [(0, 1)], ai_label = 0, ai_group = 0\<rparr>,
      \<lparr>ai_attributes = [(1, 1)], ai_label = 1, ai_group = 1\<rparr>]"

definition example_forward :: "nat \<Rightarrow> nat \<Rightarrow> nat" where
  "example_forward a l = 2 * a + l"

definition example_finalize :: "real list \<Rightarrow> real list" where
  "example_finalize scores = map (\<lambda>s. 1 / real (length scores)) scores"


text \<open>
  A maxent trainer whose only instance is a holdout instance with one candidate, of
  the feature value \<^verbatim>\<open>DBL_MAX\<close> under the weight \<open>-1\<close>.
\<close>

definition extreme_maxent :: trainer_maxent where
  "extreme_maxent =
     \<lparr>me_oexps = [0], me_mexps = [0], me_weights = [-1], me_holdout = 1, me_maxiter = 1000,
      me_epsilon = 1 / 100000, me_c1 = 0, me_c2 = 0,
      me_data = [\<lparr>mi_candidates = [\<lparr>cand_features = [(0, DBL_MAX)], cand_truth = True, cand_label = 0\<rparr>],
                  mi_group = 1\<rparr>],
      me_clk_prev = 0\<rparr>"


text \<open>Lines for the concrete evaluations: \<open>T\<close>, \<open>a\<close>, an empty field and \<open>b\<close>
  separated by tabs; a line starting with a tab; and a line whose class is \<open>Xa\<close>.\<close>

definition example_line :: string where
  "example_line = ''T'' @ [CHR 0x09] @ ''a'' @ [CHR 0x09, CHR 0x09] @ ''b''"

definition example_line_empty_label :: string where
  "example_line_empty_label = [CHR 0x09] @ ''a''"

definition example_line_class :: string where
  "example_line_class = ''Xa'' @ [CHR 0x09] @ ''b''"


text \<open>
  Empty data sets, the instances \<^verbatim>\<open>new_element()\<close> appends in the concrete
  evaluations, and a stream of the multi-candidate dialect that reserves the feature
  \<open>bias\<close> with \<^verbatim>\<open>@unregularize\<close> before its one instance, with the data set
  \<^verbatim>\<open>read_stream\<close> makes of it.
\<close>

definition fresh_attribute_instance :: attribute_instance where
  "fresh_attribute_instance = \<lparr>ai_attributes = [], ai_label = 0, ai_group = 0\<rparr>"

definition fresh_multi_instance :: multi_instance where
  "fresh_multi_instance = \<lparr>mi_candidates = [], mi_group = 0\<rparr>"

definition empty_attribute_data :: attribute_data where
  "empty_attribute_data = \<lparr>ad_instances = [], ad_features = [], ad_labels = []\<rparr>"

definition empty_multi_data :: multi_data where
  "empty_multi_data =
     \<lparr>md_instances = [], md_features = [], md_labels = [], md_user_feature_start = 0,
      md_positive_labels = []\<rparr>"

definition unregularize_stream :: "string list" where
  "unregularize_stream =
     [''@unregularize'' @ [CHR 0x09] @ ''bias'',
      ''@boi'',
      ''T'' @ [CHR 0x09] @ ''bias'' @ [CHR 0x09] @ ''f'',
      ''@eoi'']"

definition unregularize_data :: multi_data where
  "unregularize_data =
     \<lparr>md_instances =
        [\<lparr>mi_candidates = [\<lparr>cand_features = [(0, 1), (1, 1)], cand_truth = True, cand_label = 0\<rparr>],
          mi_group = 0\<rparr>],
      md_features = [''bias'', ''f''], md_labels = [''T'', ''TP''], md_user_feature_start = 1,
      md_positive_labels = [1]\<rparr>"


section \<open>Saturated logistic of the binary evaluator\<close>

lemma logistic_error_fst: "fst (logistic_error s b) = bool_to_double b - logistic_p s"
  by (simp add: logistic_error_def logistic_p_def Let_def)

lemma logistic_p_above: "-100 < s \<Longrightarrow> logistic_p s = 0"
  by (simp add: logistic_p_def)

lemma logistic_p_below: "s \<le> -100 \<Longrightarrow> logistic_p s = 1 / (1 + exp (- s))"
  by (simp add: logistic_p_def)

text \<open>
  Claim C1. The claim asks for the probability \<open>1/2\<close> at score \<open>0\<close> (and
  \<open>1/(1+e\<^sup>-\<^sup>s)\<close> for every score between \<open>-100\<close> and \<open>100\<close>). The first test of
  \<^verbatim>\<open>logistic_error\<close> is \<^verbatim>\<open>-100. < m_score\<close>, so at score \<open>0\<close> the code takes the
  branch \<open>p = 0\<close>: for a positive instance the error is \<open>1\<close> and the log-probability
  added to the loss is \<open>0\<close>, while the sibling \<^verbatim>\<open>logistic_prob\<close> returns \<open>1/2\<close>.
\<close>

theorem logistic_error_at_zero:
  "logistic_error 0 True = (1, 0) \<and> logistic_error 0 False = (0, 0)
   \<and> logistic_p 0 = 0 \<and> logistic_prob 0 = 1 / 2"
  by (simp add: logistic_error_def logistic_p_def logistic_prob_def bool_to_double_def)

section \<open>Pairwise log-sum-exp\<close>

text \<open>
  The literal of the source is below \<open>ln 2\<close>: the Taylor polynomial of degree 12
  of the exponential at the literal, with the remainder bounded by three times the
  next term, stays below \<open>2\<close>.
\<close>

lemma exp_log2_literal_less: "exp log2_literal < 2"
proof -
  define c :: real where "c = 69314718055 / 100000000000"
  obtain t where t: "\<bar>t\<bar> \<le> \<bar>c\<bar>"
    and e: "exp c = (\<Sum>m<13. c ^ m / fact m) + exp t / fact 13 * c ^ 13"
    using Maclaurin_exp_le [of c 13] by blast
  have "t \<le> 1" using t by (simp add: c_def)
  then have "exp t \<le> exp 1" by simp
  then have et: "exp t \<le> 3" using exp_le by linarith
  have cpos: "0 \<le> c ^ 13 / fact 13" by (simp add: c_def)
  have "exp t / fact 13 * c ^ 13 = exp t * (c ^ 13 / fact 13)" by simp
  also have "\<dots> \<le> 3 * (c ^ 13 / fact 13)" using et cpos by (rule mult_right_mono)
  finally have "exp c \<le> (\<Sum>m<13. c ^ m / fact m) + 3 * (c ^ 13 / fact 13)" using e by linarith
  also have "\<dots> < 2" unfolding c_def by (simp add: lessThan_nat_numeral fact_numeral power_divide)
  finally show ?thesis by (simp add: c_def log2_literal_def)
qed

lemma log2_literal_less_ln2: "log2_literal < ln 2"
proof -
  have "exp log2_literal < exp (ln 2)" using exp_log2_literal_less by simp
  then show ?thesis by (simp only: exp_less_cancel_iff)
qed

lemma logsumexp_commute: "logsumexp a b False = logsumexp b a False"
  by (auto simp: logsumexp_def Let_def)

lemma logsumexp_equal: "logsumexp a a False = a + log2_literal"
  by (simp add: logsumexp_def)

lemma logsumexp_far_below: "logsumexp 0 (-1000) False = 0"
  by (simp add: logsumexp_def)

text \<open>
  Claim C4. For equal arguments the claim gives \<open>a + ln 2\<close>. The code adds the
  decimal literal \<^verbatim>\<open>0.69314718055\<close>, which its comment names \<^verbatim>\<open>log(2)\<close> and which
  is below \<open>ln 2\<close>: for \<open>a = b = 0\<close> the result is the literal, not \<open>ln 2\<close>. (The
  combiner is commutative and gives \<open>a\<close> for \<open>a = 0\<close>, \<open>b = -1000\<close>, as the two
  lemmas above say.)
\<close>

theorem logsumexp_equal_literal:
  "logsumexp 0 0 False = 69314718055 / 100000000000
   \<and> logsumexp 0 0 False < 0 + ln 2"
  using log2_literal_less_ln2 by (simp add: logsumexp_def log2_literal_def)

section \<open>Array loops\<close>

lemmas example_defs = example_binary_data_def example_logress_def example_multi_data_def example_maxent_def

lemma fold_assign_index:
  "n \<le> length g \<Longrightarrow>
   fold (\<lambda>i g. g[i := f i]) [0..<n] g = map (\<lambda>i. if i < n then f i else g ! i) [0..<length g]"
proof (induction n)
  case 0
  then show ?case by (simp add: map_nth)
next
  case (Suc n)
  then have IH: "fold (\<lambda>i g. g[i := f i]) [0..<n] g = map (\<lambda>i. if i < n then f i else g ! i) [0..<length g]"
    by simp
  have "(map (\<lambda>i. if i < n then f i else g ! i) [0..<length g])[n := f n]
      = map (\<lambda>i. if i < Suc n then f i else g ! i) [0..<length g]"
    using Suc.prems by (intro nth_equalityI) (auto simp: nth_list_update)
  then show ?case
    by (simp add: IH)
qed

lemma fold_assign_all:
  "length g = n \<Longrightarrow> fold (\<lambda>i g. g[i := f i]) [0..<n] g = map f [0..<n]"
  by (simp add: fold_assign_index)

lemma l2_loop:
  "n \<le> length g \<Longrightarrow>
   fold (\<lambda>i (g, norm). (g[i := g ! i + c2 * x ! i], norm + x ! i * x ! i)) [s..<n] (g, a) =
     (map (\<lambda>i. if s \<le> i \<and> i < n then g ! i + c2 * x ! i else g ! i) [0..<length g],
      a + sum_list (map (\<lambda>i. x ! i * x ! i) [s..<n]))"
proof (induction n)
  case 0
  then show ?case by (simp add: map_nth)
next
  case (Suc n)
  show ?case
  proof (cases "s \<le> n")
    case True
    have IH: "fold (\<lambda>i (g, norm). (g[i := g ! i + c2 * x ! i], norm + x ! i * x ! i)) [s..<n] (g, a) =
     (map (\<lambda>i. if s \<le> i \<and> i < n then g ! i + c2 * x ! i else g ! i) [0..<length g],
      a + sum_list (map (\<lambda>i. x ! i * x ! i) [s..<n]))"
      using Suc by simp
    have "(map (\<lambda>i. if s \<le> i \<and> i < n then g ! i + c2 * x ! i else g ! i) [0..<length g])
            [n := map (\<lambda>i. if s \<le> i \<and> i < n then g ! i + c2 * x ! i else g ! i) [0..<length g] ! n + c2 * x ! n]
        = map (\<lambda>i. if s \<le> i \<and> i < Suc n then g ! i + c2 * x ! i else g ! i) [0..<length g]"
      using Suc.prems True by (intro nth_equalityI) (auto simp: nth_list_update)
    then show ?thesis
      using True by (simp add: IH add.assoc)
  next
    case False
    then have "map (\<lambda>i. if s \<le> i \<and> i < Suc n then g ! i + c2 * x ! i else g ! i) [0..<length g] = g"
      by (intro nth_equalityI) auto
    with False show ?thesis by simp
  qed
qed

lemma logress_l2_spec:
  "n \<le> length g \<Longrightarrow> logress_l2 c2 start x n (g, loss) = l2_policy_spec start c2 x n (g, loss)"
  by (simp add: logress_l2_def l2_policy_spec_def l2_loop)

lemma maxent_l2_spec:
  "n \<le> length g \<Longrightarrow> maxent_l2 c2 x n (g, loss) = l2_policy_spec 0 c2 x n (g, loss)"
  by (simp add: maxent_l2_def l2_policy_spec_def l2_loop)

lemma logress_l2_zero: "logress_l2 0 start x n acc = acc"
  by (simp add: logress_l2_def split: prod.splits)

lemma maxent_l2_zero: "maxent_l2 0 x n acc = acc"
  by (simp add: maxent_l2_def split: prod.splits)

lemma length_feature_update:
  "length (fold (\<lambda>(key, value) g. g[key := h g key value]) fs g) = length g"
  by (induction fs arbitrary: g) (auto split: prod.splits)

lemma length_logress_instance:
  "length (fst (logress_instance holdout x iti acc)) = length (fst acc)"
  by (cases acc) (simp add: logress_instance_def Let_def length_feature_update split: prod.splits)

lemma length_logress_data:
  "length (fst (fold (logress_instance holdout x) data acc)) = length (fst acc)"
  by (induction data arbitrary: acc) (simp_all add: length_logress_instance)


lemma length_fold_assign: "length (fold (\<lambda>i g. g[i := f g i]) is g) = length g"
  by (induction "is" arbitrary: g) auto

lemma logress_evaluate_unregularized:
  "logress_lbfgs_evaluate (tr\<lparr>lr_c2 := 0\<rparr>) x g n step =
     fold (logress_instance (lr_holdout tr) x) (lr_data tr) (fold (\<lambda>i g. g[i := 0]) [0..<n] g, 0)"
  by (simp add: logress_lbfgs_evaluate_def logress_l2_zero)

lemma maxent_evaluate_unregularized:
  "snd (maxent_lbfgs_evaluate (tr\<lparr>me_c2 := 0\<rparr>) x g n step) =
     (let mexps0 = fold (\<lambda>i m. m[i := 0]) [0..<n] (me_mexps tr);
          (mexps, loss) = fold (maxent_instance (me_holdout tr) x) (me_data tr) (mexps0, 0)
      in (fold (\<lambda>i g. g[i := - (me_oexps tr ! i - mexps ! i)]) [0..<n] g, loss))"
  by (simp add: maxent_lbfgs_evaluate_def maxent_l2_zero Let_def split: prod.splits)


section \<open>L2 regularization\<close>

text \<open>
  For a gradient buffer of the length \<open>n\<close> the solver passes, each evaluator
  returns what the regularization policy of the specification makes of the result
  of the same evaluator without L2 regularization: the binary logistic evaluator
  with the start index \<^verbatim>\<open>m_regularization_start\<close>, so that the indices below it get
  nothing; the maxent evaluator, which has no start index, with the start \<open>0\<close>, so
  that every index \<open>0 \<le> i < n\<close> is penalized.
\<close>

lemma l2_blocks_follow_policy:
  assumes "length g = n"
  shows "logress_lbfgs_evaluate tr x g n step =
           l2_policy_spec (lr_regularization_start tr) (lr_c2 tr) x n
             (logress_lbfgs_evaluate (tr\<lparr>lr_c2 := 0\<rparr>) x g n step)
    \<and> snd (maxent_lbfgs_evaluate mt x g n step) =
           l2_policy_spec 0 (me_c2 mt) x n (snd (maxent_lbfgs_evaluate (mt\<lparr>me_c2 := 0\<rparr>) x g n step))"
proof (rule conjI)
  obtain g1 loss1 where acc:
    "fold (logress_instance (lr_holdout tr) x) (lr_data tr) (fold (\<lambda>i g. g[i := 0]) [0..<n] g, 0) = (g1, loss1)"
    by (cases "fold (logress_instance (lr_holdout tr) x) (lr_data tr) (fold (\<lambda>i g. g[i := 0]) [0..<n] g, 0)")
  have "length (fst (fold (logress_instance (lr_holdout tr) x) (lr_data tr) (fold (\<lambda>i g. g[i := 0]) [0..<n] g, 0))) = n"
    using assms by (simp add: length_logress_data length_fold_assign)
  then have len: "n \<le> length g1" using acc by simp
  show "logress_lbfgs_evaluate tr x g n step =
           l2_policy_spec (lr_regularization_start tr) (lr_c2 tr) x n
             (logress_lbfgs_evaluate (tr\<lparr>lr_c2 := 0\<rparr>) x g n step)"
    unfolding logress_evaluate_unregularized
    by (simp add: logress_lbfgs_evaluate_def acc logress_l2_spec [OF len])
next
  obtain mexps loss where acc:
    "fold (maxent_instance (me_holdout mt) x) (me_data mt) (fold (\<lambda>i m. m[i := 0]) [0..<n] (me_mexps mt), 0) = (mexps, loss)"
    by (cases "fold (maxent_instance (me_holdout mt) x) (me_data mt) (fold (\<lambda>i m. m[i := 0]) [0..<n] (me_mexps mt), 0)")
  define g1 where "g1 = fold (\<lambda>i g. g[i := - (me_oexps mt ! i - mexps ! i)]) [0..<n] g"
  have len: "n \<le> length g1" using assms by (simp add: g1_def length_fold_assign)
  show "snd (maxent_lbfgs_evaluate mt x g n step) =
           l2_policy_spec 0 (me_c2 mt) x n (snd (maxent_lbfgs_evaluate (mt\<lparr>me_c2 := 0\<rparr>) x g n step))"
    unfolding maxent_evaluate_unregularized
    using maxent_l2_spec [OF len, of "me_c2 mt" x loss]
    by (simp add: maxent_lbfgs_evaluate_def acc g1_def split: prod.splits)
qed



section \<open>Regularization constants\<close>

lemma logress_evaluate_c1:
  "logress_lbfgs_evaluate (tr\<lparr>lr_c1 := a\<rparr>) x g n step = logress_lbfgs_evaluate tr x g n step"
  by (simp add: logress_lbfgs_evaluate_def)

lemma maxent_evaluate_c1:
  "snd (maxent_lbfgs_evaluate (tr\<lparr>me_c1 := a\<rparr>) x g n step) = snd (maxent_lbfgs_evaluate tr x g n step)"
  by (simp add: maxent_lbfgs_evaluate_def Let_def split: prod.splits)

lemma atoi_range: "atoi str = Some d \<Longrightarrow> INT_MIN \<le> d \<and> d \<le> INT_MAX \<and> d = atoi_value str"
  by (auto simp: atoi_def Let_def split: if_splits)

lemma atoi_defined:
  "INT_MIN \<le> atoi_value str \<Longrightarrow> atoi_value str \<le> INT_MAX \<Longrightarrow> atoi str = Some (atoi_value str)"
  by (simp add: atoi_def)

lemma atoi_undefined: "atoi_value str < INT_MIN \<or> INT_MAX < atoi_value str \<Longrightarrow> atoi str = None"
  by (auto simp: atoi_def)

lemma maxent_set_l1:
  "maxent_set tr (''regularization.l1='' @ str) =
     (case atoi str of
        None \<Rightarrow> None
      | Some d \<Rightarrow> Some (tr\<lparr>me_c1 := (if d \<le> 0 then 0 else 1 / real_of_int d)\<rparr>, Some True))"
  by (simp add: maxent_set_def parse_param_def Let_def split: option.splits)

lemma maxent_set_l2:
  "maxent_set tr (''regularization.l2='' @ str) =
     (case atoi str of
        None \<Rightarrow> None
      | Some d \<Rightarrow> Some (tr\<lparr>me_c2 := (if d \<le> 0 then 0 else 1 / real_of_int d)\<rparr>, Some True))"
  by (simp add: maxent_set_def parse_param_def Let_def split: option.splits)

text \<open>
  Claim C3, as the code has it. After the parameter block of
  \<^verbatim>\<open>trainer_logress::train\<close> at most one of \<open>c1\<close> and \<open>c2\<close> is not zero: for a
  sigma that is not zero, \<open>L1\<close> (or \<open>l1\<close>) gives \<open>c1 = 1/sigma\<close> and \<open>c2 = 0\<close>, \<open>L2\<close>
  (or \<open>l2\<close>) gives \<open>c2 = 1/sigma\<^sup>2\<close> and \<open>c1 = 0\<close>, and any other selection gives
  both zero. Neither evaluator reads \<open>c1\<close>: changing it changes neither the gradient
  nor the loss. \<^verbatim>\<open>trainer_maxent::set\<close> sets the two constants independently of each
  other: where the text after \<^verbatim>\<open>regularization.l1=\<close> denotes a number \<open>d\<close> within
  the range of \<^verbatim>\<open>int\<close> (from \<open>-2\<^sup>3\<^sup>1\<close> to \<open>2\<^sup>3\<^sup>1 - 1\<close>), the call returns, sets
  \<open>c1\<close> to \<open>1/d\<close> for a positive \<open>d\<close> and to \<open>0\<close> otherwise, and leaves \<open>c2\<close> as it
  is; \<^verbatim>\<open>regularization.l2=\<close> does the same to \<open>c2\<close> and leaves \<open>c1\<close>. Nothing is
  said for a number outside that range, where \<^verbatim>\<open>atoi\<close> is undefined.
\<close>

theorem regularization_constants:
  "(let tr' = logress_train_setup tr data K user_feature_start holdout clk;
        reg = lr_regularization tr; sigma = lr_regularization_sigma tr
    in (lr_c1 tr' = 0 \<or> lr_c2 tr' = 0)
       \<and> (sigma \<noteq> 0 \<and> (reg = ''L1'' \<or> reg = ''l1'') \<longrightarrow> lr_c1 tr' = 1 / sigma \<and> lr_c2 tr' = 0)
       \<and> (sigma \<noteq> 0 \<and> (reg = ''L2'' \<or> reg = ''l2'') \<longrightarrow> lr_c2 tr' = 1 / sigma\<^sup>2 \<and> lr_c1 tr' = 0)
       \<and> (reg \<noteq> ''L1'' \<and> reg \<noteq> ''l1'' \<and> reg \<noteq> ''L2'' \<and> reg \<noteq> ''l2'' \<longrightarrow> lr_c1 tr' = 0 \<and> lr_c2 tr' = 0))
   \<and> logress_lbfgs_evaluate (tr\<lparr>lr_c1 := a\<rparr>) x g n step = logress_lbfgs_evaluate tr x g n step
   \<and> snd (maxent_lbfgs_evaluate (mt\<lparr>me_c1 := a\<rparr>) x g n step) = snd (maxent_lbfgs_evaluate mt x g n step)
   \<and> (INT_MIN \<le> atoi_value str \<and> atoi_value str \<le> INT_MAX \<longrightarrow>
        maxent_set mt (''regularization.l1='' @ str) =
          Some (mt\<lparr>me_c1 := (if atoi_value str \<le> 0 then 0 else 1 / real_of_int (atoi_value str))\<rparr>,
                Some True)
        \<and> maxent_set mt (''regularization.l2='' @ str) =
          Some (mt\<lparr>me_c2 := (if atoi_value str \<le> 0 then 0 else 1 / real_of_int (atoi_value str))\<rparr>,
                Some True))"
proof -
  have params: "maxent_set mt (''regularization.l1='' @ str) =
          Some (mt\<lparr>me_c1 := (if atoi_value str \<le> 0 then 0 else 1 / real_of_int (atoi_value str))\<rparr>,
                Some True)
        \<and> maxent_set mt (''regularization.l2='' @ str) =
          Some (mt\<lparr>me_c2 := (if atoi_value str \<le> 0 then 0 else 1 / real_of_int (atoi_value str))\<rparr>,
                Some True)"
    if "INT_MIN \<le> atoi_value str \<and> atoi_value str \<le> INT_MAX"
    using that maxent_set_l1 [of mt str] maxent_set_l2 [of mt str] by (simp add: atoi_defined)
  have config: "(let tr' = logress_train_setup tr data K user_feature_start holdout clk;
        reg = lr_regularization tr; sigma = lr_regularization_sigma tr
    in (lr_c1 tr' = 0 \<or> lr_c2 tr' = 0)
       \<and> (sigma \<noteq> 0 \<and> (reg = ''L1'' \<or> reg = ''l1'') \<longrightarrow> lr_c1 tr' = 1 / sigma \<and> lr_c2 tr' = 0)
       \<and> (sigma \<noteq> 0 \<and> (reg = ''L2'' \<or> reg = ''l2'') \<longrightarrow> lr_c2 tr' = 1 / sigma\<^sup>2 \<and> lr_c1 tr' = 0)
       \<and> (reg \<noteq> ''L1'' \<and> reg \<noteq> ''l1'' \<and> reg \<noteq> ''L2'' \<and> reg \<noteq> ''l2'' \<longrightarrow> lr_c1 tr' = 0 \<and> lr_c2 tr' = 0))"
    by (simp add: logress_train_setup_def Let_def power2_eq_square)
  show ?thesis
    using params config
      logress_evaluate_c1 [where tr = tr and a = a and x = x and g = g and n = n and step = step]
      maxent_evaluate_c1 [where tr = mt and a = a and x = x and g = g and n = n and step = step]
    by blast
qed

text \<open>Witness for C3: the three selections on the concrete binary trainer
  (sigma \<open>5\<close>), and \<^verbatim>\<open>regularization.l1=4\<close> on the concrete maxent trainer, whose
  \<open>c2 = 2\<close> stays.\<close>

theorem regularization_constants_witness:
  "(let tr' = logress_train_setup example_logress example_binary_data 2 1 1 0
    in lr_c1 tr' = 0 \<and> lr_c2 tr' = 1 / 25)
   \<and> (let tr' = logress_train_setup (example_logress\<lparr>lr_regularization := ''L1''\<rparr>) example_binary_data 2 1 1 0
       in lr_c1 tr' = 1 / 5 \<and> lr_c2 tr' = 0)
   \<and> (let tr' = logress_train_setup (example_logress\<lparr>lr_regularization := ''''\<rparr>) example_binary_data 2 1 1 0
       in lr_c1 tr' = 0 \<and> lr_c2 tr' = 0)
   \<and> INT_MIN \<le> atoi_value ''4'' \<and> atoi_value ''4'' \<le> INT_MAX
   \<and> maxent_set example_maxent ''regularization.l1=4'' = Some (example_maxent\<lparr>me_c1 := 1 / 4\<rparr>, Some True)
   \<and> me_c2 (example_maxent\<lparr>me_c1 := 1 / 4\<rparr>) = 2"
  using regularization_constants [of example_logress example_binary_data 2 1 1 0 7 "[1, 3]" "[7, 9]" 2 0 example_maxent "''4''"]
    regularization_constants [of "example_logress\<lparr>lr_regularization := ''L1''\<rparr>" example_binary_data 2 1 1 0 7 "[1, 3]" "[7, 9]" 2 0 example_maxent "''4''"]
    regularization_constants [of "example_logress\<lparr>lr_regularization := ''''\<rparr>" example_binary_data 2 1 1 0 7 "[1, 3]" "[7, 9]" 2 0 example_maxent "''4''"]
  by (simp add: example_logress_def example_maxent_def Let_def atoi_value_def INT_MIN_def INT_MAX_def
      isspace_def isdigit_def)

text \<open>
  Counterexample for C3 as stated: a maxent trainer given
  \<^verbatim>\<open>regularization.l1=2\<close> and then \<^verbatim>\<open>regularization.l2=4\<close> is trained with
  \<open>c1 = 1/2\<close> and \<open>c2 = 1/4\<close>, both not zero (and \<open>c2\<close> is \<open>1/d\<close>, not \<open>1/d\<^sup>2\<close>).
\<close>

theorem maxent_both_constants_counterexample:
  "maxent_set trainer_maxent_new ''regularization.l1=2'' =
     Some (trainer_maxent_new\<lparr>me_c1 := 1 / 2\<rparr>, Some True)
   \<and> maxent_set (trainer_maxent_new\<lparr>me_c1 := 1 / 2\<rparr>) ''regularization.l2=4'' =
     Some (trainer_maxent_new\<lparr>me_c1 := 1 / 2, me_c2 := 1 / 4\<rparr>, Some True)
   \<and> me_c1 (maxent_train_setup (trainer_maxent_new\<lparr>me_c1 := 1 / 2, me_c2 := 1 / 4\<rparr>) example_multi_data 2 1 0)
       = 1 / 2
   \<and> me_c2 (maxent_train_setup (trainer_maxent_new\<lparr>me_c1 := 1 / 2, me_c2 := 1 / 4\<rparr>) example_multi_data 2 1 0)
       = 1 / 4"
  by (simp add: maxent_set_def parse_param_def atoi_def atoi_value_def INT_MIN_def INT_MAX_def
      isspace_def isdigit_def trainer_maxent_new_def maxent_train_setup_def Let_def)

text \<open>
  Outside the range of \<^verbatim>\<open>int\<close> the call has no defined result: the parameter
  \<^verbatim>\<open>regularization.l2=4294967297\<close> is such a text.
\<close>

lemma maxent_set_out_of_range: "maxent_set tr ''regularization.l2=4294967297'' = None"
  by (simp add: maxent_set_def parse_param_def atoi_def atoi_value_def INT_MIN_def INT_MAX_def
      isspace_def isdigit_def Let_def)

section \<open>Instances of the holdout group\<close>

text \<open>An instance whose loop body is the identity can be removed from the data.\<close>

lemma fold_skip:
  "(\<And>acc. f i acc = acc) \<Longrightarrow> fold f (xs @ i # ys) acc = fold f (xs @ ys) acc"
  by simp

lemma logress_instance_holdout:
  "bi_group iti = holdout \<Longrightarrow> logress_instance holdout x iti acc = acc"
  by (cases acc) (simp add: logress_instance_def)

lemma maxent_instance_holdout:
  "mi_group iti = holdout \<Longrightarrow> maxent_instance holdout x iti acc = acc"
  by (cases acc) (simp add: maxent_instance_def)

lemma multi_instance_step_holdout:
  "ai_group inst = holdout \<Longrightarrow> multi_instance_step forward finalize holdout L x inst acc = acc"
  by (cases acc) (simp add: multi_instance_step_def)

lemma maxent_observation_holdout:
  "mi_group iti = holdout \<Longrightarrow> maxent_observation holdout iti oexps = oexps"
  by (simp add: maxent_observation_def)

lemma logress_holdout_instance_training:
  "bi_group iti \<noteq> lr_holdout tr \<Longrightarrow> logress_holdout_instance tr fa iti acc = acc"
  by (cases acc) (simp add: logress_holdout_instance_def)

lemma logress_evaluate_remove:
  "bi_group iti = lr_holdout tr \<Longrightarrow>
   logress_lbfgs_evaluate (tr\<lparr>lr_data := xs @ iti # ys\<rparr>) x g n step =
   logress_lbfgs_evaluate (tr\<lparr>lr_data := xs @ ys\<rparr>) x g n step"
  by (simp add: logress_lbfgs_evaluate_def logress_instance_holdout)

lemma maxent_evaluate_remove:
  "mi_group iti = me_holdout tr \<Longrightarrow>
   snd (maxent_lbfgs_evaluate (tr\<lparr>me_data := xs @ iti # ys\<rparr>) x g n step) =
   snd (maxent_lbfgs_evaluate (tr\<lparr>me_data := xs @ ys\<rparr>) x g n step)"
  by (simp add: maxent_lbfgs_evaluate_def maxent_instance_holdout Let_def split: prod.splits)

lemma maxent_train_setup_remove:
  "mi_group iti = holdout \<Longrightarrow>
   me_oexps (maxent_train_setup tr (xs @ iti # ys) K holdout clk) =
   me_oexps (maxent_train_setup tr (xs @ ys) K holdout clk)"
  by (simp add: maxent_train_setup_def maxent_observation_holdout)

lemma loss_and_gradient_remove:
  "ai_group inst = holdout \<Longrightarrow>
   loss_and_gradient forward finalize oexps holdout (xs @ inst # ys) L x g n =
   loss_and_gradient forward finalize oexps holdout (xs @ ys) L x g n"
  by (simp add: loss_and_gradient_def multi_instance_step_holdout)

lemma logress_holdout_remove:
  "bi_group iti \<noteq> lr_holdout tr \<Longrightarrow>
   logress_holdout_evaluation (tr\<lparr>lr_data := xs @ iti # ys\<rparr>) fa =
   logress_holdout_evaluation (tr\<lparr>lr_data := xs @ ys\<rparr>) fa"
proof -
  assume a: "bi_group iti \<noteq> lr_holdout tr"
  have eq: "\<And>d. logress_holdout_instance (tr\<lparr>lr_data := d\<rparr>) fa = logress_holdout_instance tr fa"
    by (rule ext, rule ext) (simp add: logress_holdout_instance_def split: prod.splits)
  show ?thesis
    by (simp add: logress_holdout_evaluation_def eq logress_holdout_instance_training [OF a])
qed

lemma cm_total_2: "cm_total 2 m = m 0 0 + m 0 1 + m 1 0 + m 1 1"
  by (simp add: cm_total_def numeral_2_eq_2)

lemma cm_total_increment:
  "r < 2 \<Longrightarrow> p < 2 \<Longrightarrow> cm_total 2 (cm_increment m r p) = Suc (cm_total 2 m)"
  by (auto simp: cm_total_2 cm_increment_def less_2_cases_iff)

lemma logress_holdout_instance_total:
  "cm_total 2 (fst (logress_holdout_instance tr fa iti acc)) =
     cm_total 2 (fst acc) + (if bi_group iti = lr_holdout tr then 1 else 0)"
  by (cases acc) (simp add: logress_holdout_instance_def Let_def cm_total_increment)

lemma logress_holdout_fold_total:
  "cm_total 2 (fst (fold (logress_holdout_instance tr fa) data acc)) =
     cm_total 2 (fst acc) + length (filter (\<lambda>iti. bi_group iti = lr_holdout tr) data)"
  by (induction data arbitrary: acc) (simp_all add: logress_holdout_instance_total)

lemma logress_holdout_total:
  "cm_total 2 (fst (logress_holdout_evaluation tr fa)) =
     length (filter (\<lambda>iti. bi_group iti = lr_holdout tr) (lr_data tr))"
proof -
  have empty: "cm_total 2 cm_empty = 0"
    by (simp add: cm_total_2 cm_empty_def)
  have "cm_total 2 (fst (fold (logress_holdout_instance tr fa) (lr_data tr)
          (cm_empty, if fa then [False_analysis_begin] else []))) =
        length (filter (\<lambda>iti. bi_group iti = lr_holdout tr) (lr_data tr))"
    by (simp add: logress_holdout_fold_total empty)
  then show ?thesis
    by (simp add: logress_holdout_evaluation_def Let_def case_prod_beta)
qed

section \<open>The candidate of maximal score\<close>

text \<open>
  The candidate loop of the maxent holdout evaluation leaves its state as it is when
  no candidate scores above \<^verbatim>\<open>score_max\<close>; otherwise it returns the first position
  of the maximal score, which is above the initial \<^verbatim>\<open>score_max\<close>.
\<close>

lemma maxent_argmax_none:
  "\<forall>c\<in>set cs. \<not> sm < cand_score w c \<Longrightarrow> maxent_argmax w cs i (sm, im) = (sm, im)"
  by (induction cs arbitrary: i) (simp_all add: cand_score_def Let_def)

lemma maxent_argmax_some:
  "\<exists>c\<in>set cs. sm < cand_score w c \<Longrightarrow>
   \<exists>j<length cs. maxent_argmax w cs i (sm, im) = (cand_score w (cs ! j), Some (i + j))
      \<and> sm < cand_score w (cs ! j)
      \<and> (\<forall>k<length cs. cand_score w (cs ! k) \<le> cand_score w (cs ! j))
      \<and> (\<forall>k<j. cand_score w (cs ! k) < cand_score w (cs ! j))"
proof (induction cs arbitrary: i sm im)
  case Nil
  then show ?case by simp
next
  case (Cons c cs)
  let ?s = "cand_score w c"
  show ?case
  proof (cases "sm < ?s")
    case True
    then have step: "maxent_argmax w (c # cs) i (sm, im) = maxent_argmax w cs (Suc i) (?s, Some i)"
      by (simp add: cand_score_def Let_def)
    show ?thesis
    proof (cases "\<exists>c'\<in>set cs. ?s < cand_score w c'")
      case ex: True
      from Cons.IH [OF ex, of "Suc i" "Some i"] obtain j where j: "j < length cs"
        "maxent_argmax w cs (Suc i) (?s, Some i) = (cand_score w (cs ! j), Some (Suc i + j))"
        "?s < cand_score w (cs ! j)"
        "\<forall>k<length cs. cand_score w (cs ! k) \<le> cand_score w (cs ! j)"
        "\<forall>k<j. cand_score w (cs ! k) < cand_score w (cs ! j)"
        by blast
      have le: "\<forall>k<length (c # cs). cand_score w ((c # cs) ! k) \<le> cand_score w ((c # cs) ! Suc j)"
        using j(3,4) by (auto simp: nth_Cons split: nat.splits)
      have lt: "\<forall>k<Suc j. cand_score w ((c # cs) ! k) < cand_score w ((c # cs) ! Suc j)"
        using j(3,5) by (auto simp: nth_Cons split: nat.splits)
      have "Suc j < length (c # cs)" using j(1) by simp
      moreover have "maxent_argmax w (c # cs) i (sm, im) = (cand_score w ((c # cs) ! Suc j), Some (i + Suc j))"
        using step j(2) by simp
      moreover have "sm < cand_score w ((c # cs) ! Suc j)" using True j(3) by simp
      ultimately show ?thesis using le lt by blast
    next
      case False
      then have "maxent_argmax w cs (Suc i) (?s, Some i) = (?s, Some i)"
        by (intro maxent_argmax_none) simp
      then have "maxent_argmax w (c # cs) i (sm, im) = (cand_score w ((c # cs) ! 0), Some (i + 0))"
        using step by simp
      moreover have "\<forall>k<length (c # cs). cand_score w ((c # cs) ! k) \<le> cand_score w ((c # cs) ! 0)"
        using False by (auto simp: nth_Cons not_less split: nat.splits)
      moreover have "sm < cand_score w ((c # cs) ! 0)" using True by simp
      ultimately show ?thesis by (intro exI [of _ 0]) simp
    qed
  next
    case False
    then have step: "maxent_argmax w (c # cs) i (sm, im) = maxent_argmax w cs (Suc i) (sm, im)"
      by (simp add: cand_score_def Let_def)
    from False Cons.prems have ex: "\<exists>c'\<in>set cs. sm < cand_score w c'" by auto
    from Cons.IH [OF ex, of "Suc i" im] obtain j where j: "j < length cs"
        "maxent_argmax w cs (Suc i) (sm, im) = (cand_score w (cs ! j), Some (Suc i + j))"
        "sm < cand_score w (cs ! j)"
        "\<forall>k<length cs. cand_score w (cs ! k) \<le> cand_score w (cs ! j)"
        "\<forall>k<j. cand_score w (cs ! k) < cand_score w (cs ! j)"
      by blast
    have le: "\<forall>k<length (c # cs). cand_score w ((c # cs) ! k) \<le> cand_score w ((c # cs) ! Suc j)"
      using j(3,4) False by (auto simp: nth_Cons split: nat.splits)
    have lt: "\<forall>k<Suc j. cand_score w ((c # cs) ! k) < cand_score w ((c # cs) ! Suc j)"
      using j(3,5) False by (auto simp: nth_Cons split: nat.splits)
    have "Suc j < length (c # cs)" using j(1) by simp
    moreover have "maxent_argmax w (c # cs) i (sm, im) = (cand_score w ((c # cs) ! Suc j), Some (i + Suc j))"
      using step j(2) by simp
    moreover have "sm < cand_score w ((c # cs) ! Suc j)" using j(3) by simp
    ultimately show ?thesis using le lt by blast
  qed
qed

lemma scorable_iff: "scorable w iti \<longleftrightarrow> (\<exists>c\<in>set (mi_candidates iti). - DBL_MAX < cand_score w c)"
  by (simp add: scorable_def list_ex_iff)

lemma maxent_argmax_defined:
  "scorable w iti \<Longrightarrow> \<exists>j. snd (maxent_argmax w (mi_candidates iti) 0 (- DBL_MAX, None)) = Some j"
  using maxent_argmax_some [of "mi_candidates iti" "- DBL_MAX" w 0 None]
  by (auto simp: scorable_iff)

lemma maxent_argmax_undefined:
  "\<not> scorable w iti \<Longrightarrow> snd (maxent_argmax w (mi_candidates iti) 0 (- DBL_MAX, None)) = None"
  by (simp add: scorable_iff maxent_argmax_none)

lemma maxent_holdout_loop_cong:
  "me_holdout tr = me_holdout tr' \<Longrightarrow> me_weights tr = me_weights tr' \<Longrightarrow>
   maxent_holdout_loop tr data acc = maxent_holdout_loop tr' data acc"
  by (induction tr data acc rule: maxent_holdout_loop.induct) (auto split: option.splits)

lemma maxent_holdout_loop_remove:
  "mi_group iti \<noteq> me_holdout tr \<Longrightarrow>
   maxent_holdout_loop tr (xs @ iti # ys) acc = maxent_holdout_loop tr (xs @ ys) acc"
  by (induction tr xs acc rule: maxent_holdout_loop.induct) (auto split: option.splits)

lemma maxent_holdout_loop_total:
  "list_all (\<lambda>iti. mi_group iti \<noteq> me_holdout tr \<or> scorable (me_weights tr) iti) data \<Longrightarrow>
   \<exists>num_correct. maxent_holdout_loop tr data acc =
     Some (num_correct, snd acc + length (filter (\<lambda>iti. mi_group iti = me_holdout tr) data))"
proof (induction tr data acc rule: maxent_holdout_loop.induct)
  case (1 tr acc)
  then show ?case by (cases acc) simp
next
  case (2 tr iti rest num_correct num_total)
  show ?case
  proof (cases "mi_group iti \<noteq> me_holdout tr")
    case True
    with 2 show ?thesis by simp
  next
    case False
    with "2.prems" have "scorable (me_weights tr) iti" by simp
    then obtain j where j: "snd (maxent_argmax (me_weights tr) (mi_candidates iti) 0 (- DBL_MAX, None)) = Some j"
      using maxent_argmax_defined by blast
    from "2.IH"(2) [OF _ j] False "2.prems" j show ?thesis by simp
  qed
qed

lemma maxent_holdout_evaluation_remove:
  "mi_group iti \<noteq> me_holdout tr \<Longrightarrow>
   maxent_holdout_evaluation (tr\<lparr>me_data := xs @ iti # ys\<rparr>) =
   maxent_holdout_evaluation (tr\<lparr>me_data := xs @ ys\<rparr>)"
  using maxent_holdout_loop_cong [of "tr\<lparr>me_data := xs @ iti # ys\<rparr>" "tr\<lparr>me_data := xs @ ys\<rparr>" "xs @ ys" "(0, 0)"]
  by (simp add: maxent_holdout_evaluation_def maxent_holdout_loop_remove)

lemma maxent_holdout_evaluation_total:
  assumes "holdout_scorable tr"
  shows "\<exists>accuracy num_correct. maxent_holdout_evaluation tr =
     Some [Accuracy accuracy num_correct (length (filter (\<lambda>iti. mi_group iti = me_holdout tr) (me_data tr)))]"
proof -
  from assms obtain nc where "maxent_holdout_loop tr (me_data tr) (0, 0) =
     Some (nc, length (filter (\<lambda>iti. mi_group iti = me_holdout tr) (me_data tr)))"
    using maxent_holdout_loop_total [of tr "me_data tr" "(0, 0)"] by (auto simp: holdout_scorable_def)
  then show ?thesis by (simp add: maxent_holdout_evaluation_def)
qed

lemmas multi_eval_defs = loss_and_gradient_def multi_instance_step_def fg_inner_product_def
  fg_add_to_def example_attribute_data_def example_forward_def example_finalize_def
  numeral_eq_Suc ln_div

lemmas eval_defs = logress_lbfgs_evaluate_def logress_instance_def logress_l2_def
      linear_binary_score_def logistic_error_def bool_to_double_def
      maxent_lbfgs_evaluate_def maxent_instance_def maxent_l2_def
      inner_product_def add_features_def logsumexp_def numeral_2_eq_2


text \<open>
  An instance of the holdout group can be removed from the data without changing
  the loss or the gradient the binary logistic and the maxent evaluator return, nor
  the observation expectations \<^verbatim>\<open>trainer_maxent::train\<close> computes, nor (for given
  observation expectations) what \<^verbatim>\<open>loss_and_gradient\<close> of the multi-class trainer
  returns. An instance of another group can be removed without changing what the
  holdout evaluations of the binary and the maxent trainer return; the confusion
  matrix of the binary one holds as many tallies as there are holdout instances, and
  the maxent one, where every holdout instance has a candidate it can score, reports
  that number as its total.
\<close>

lemma holdout_instances_skipped:
  "(bi_group bi = lr_holdout tr \<longrightarrow>
      logress_lbfgs_evaluate (tr\<lparr>lr_data := bs @ bi # bs'\<rparr>) x g n step =
      logress_lbfgs_evaluate (tr\<lparr>lr_data := bs @ bs'\<rparr>) x g n step)
   \<and> (mi_group mi = me_holdout mt \<longrightarrow>
      snd (maxent_lbfgs_evaluate (mt\<lparr>me_data := ms @ mi # ms'\<rparr>) x g n step) =
      snd (maxent_lbfgs_evaluate (mt\<lparr>me_data := ms @ ms'\<rparr>) x g n step)
      \<and> me_oexps (maxent_train_setup mt (ms @ mi # ms') K (me_holdout mt) clk) =
        me_oexps (maxent_train_setup mt (ms @ ms') K (me_holdout mt) clk))
   \<and> (ai_group ai = holdout \<longrightarrow>
      loss_and_gradient forward finalize oexps holdout (as @ ai # as') L x g n =
      loss_and_gradient forward finalize oexps holdout (as @ as') L x g n)
   \<and> (bi_group bi \<noteq> lr_holdout tr \<longrightarrow>
      logress_holdout_evaluation (tr\<lparr>lr_data := bs @ bi # bs'\<rparr>) fa =
      logress_holdout_evaluation (tr\<lparr>lr_data := bs @ bs'\<rparr>) fa)
   \<and> cm_total 2 (fst (logress_holdout_evaluation tr fa)) =
       length (filter (\<lambda>iti. bi_group iti = lr_holdout tr) (lr_data tr))
   \<and> (mi_group mi \<noteq> me_holdout mt \<longrightarrow>
      maxent_holdout_evaluation (mt\<lparr>me_data := ms @ mi # ms'\<rparr>) =
      maxent_holdout_evaluation (mt\<lparr>me_data := ms @ ms'\<rparr>))
   \<and> (holdout_scorable mt \<longrightarrow>
      (\<exists>accuracy num_correct. maxent_holdout_evaluation mt =
         Some [Accuracy accuracy num_correct
                 (length (filter (\<lambda>iti. mi_group iti = me_holdout mt) (me_data mt)))]))"
  using logress_evaluate_remove [of bi tr bs bs' x g n step]
    maxent_evaluate_remove [of mi mt ms ms' x g n step]
    maxent_train_setup_remove [of mi "me_holdout mt" mt ms ms' K clk]
    loss_and_gradient_remove [of ai holdout forward finalize oexps as as' L x g n]
    logress_holdout_remove [of bi tr bs bs' fa]
    logress_holdout_total [of tr fa]
    maxent_holdout_evaluation_remove [of mi mt ms ms']
    maxent_holdout_evaluation_total [of mt]
  by blast

section \<open>Holdout instances in the multi-class trainer\<close>

text \<open>
  Where the member \<^verbatim>\<open>m_holdout\<close> already holds the holdout group when
  \<^verbatim>\<open>train\<close> is entered, a holdout instance can be removed without changing the
  observation expectations or the first evaluation.
\<close>

lemma multi_observation_holdout:
  "ai_group iti = m_holdout \<Longrightarrow> multi_observation forward m_holdout iti oexps = oexps"
  by (simp add: multi_observation_def)

lemma multi_train_evaluate_remove:
  "ai_group ai = holdout \<Longrightarrow>
   multi_train_evaluate forward finalize holdout (as @ ai # as') K L holdout x g =
   multi_train_evaluate forward finalize holdout (as @ as') K L holdout x g"
  by (simp add: multi_train_evaluate_def multi_train_oexps_def multi_observation_holdout
      loss_and_gradient_remove)

text \<open>
  Claim C5. \<^verbatim>\<open>trainer_lbfgs_multi::train\<close> computes the observation expectations
  under the value \<^verbatim>\<open>m_holdout\<close> has on entry, not under its argument \<^verbatim>\<open>holdout\<close>.
  Entered with \<^verbatim>\<open>m_holdout = -1\<close> and called with the holdout group \<open>1\<close> on the
  attribute data set, whose second instance has group \<open>1\<close>, it counts that instance
  in \<^verbatim>\<open>m_oexps\<close> (entry \<open>3\<close>), and the gradient \<^verbatim>\<open>loss_and_gradient\<close> then
  returns, which starts from the negated \<^verbatim>\<open>m_oexps\<close>, has \<open>-1\<close> in entry \<open>3\<close>;
  without the holdout instance in the data both are \<open>0\<close> there. The holdout
  instance contributes to the gradient.
\<close>

theorem multi_train_holdout_leak:
  "ai_group (example_attribute_data ! 1) = 1
   \<and> multi_train_oexps example_forward (- 1) example_attribute_data 4 = [1, 0, 0, 1]
   \<and> multi_train_oexps example_forward (- 1) [example_attribute_data ! 0] 4 = [1, 0, 0, 0]
   \<and> multi_train_evaluate example_forward example_finalize (- 1) example_attribute_data 4 2 1
        [1, 3, 0, 0] [0, 0, 0, 0] = ([- 1 / 2, 1 / 2, 0, - 1], ln 2)
   \<and> multi_train_evaluate example_forward example_finalize (- 1) [example_attribute_data ! 0] 4 2 1
        [1, 3, 0, 0] [0, 0, 0, 0] = ([- 1 / 2, 1 / 2, 0, 0], ln 2)"
  by (simp add: multi_train_evaluate_def multi_train_oexps_def multi_observation_def multi_eval_defs)

section \<open>The gradient buffer\<close>

text \<open>
  Claim C9. For a gradient buffer of the length \<open>n\<close> the solver passes, the
  binary logistic evaluator first makes every entry zero, the multi-class evaluator
  first makes every entry the negated observation expectation, and the maxent
  evaluator assigns every entry from the expectations; the gradient and the loss
  the three evaluators return are the same for any two initial contents of the
  buffer (and, for the maxent evaluator, of its model expectation array).
\<close>

theorem gradient_buffer_overwritten:
  assumes "length g1 = n" and "length g2 = n" and "length m1 = n" and "length m2 = n"
  shows "fold (\<lambda>i g. g[i := 0]) [0..<n] g1 = replicate n 0
    \<and> logress_lbfgs_evaluate tr x g1 n step = logress_lbfgs_evaluate tr x g2 n step
    \<and> snd (maxent_lbfgs_evaluate mt x g1 n step) = snd (maxent_lbfgs_evaluate mt x g2 n step)
    \<and> snd (maxent_lbfgs_evaluate (mt\<lparr>me_mexps := m1\<rparr>) x g1 n step) =
      snd (maxent_lbfgs_evaluate (mt\<lparr>me_mexps := m2\<rparr>) x g2 n step)
    \<and> fold (\<lambda>i g. g[i := - oexps ! i]) [0..<n] g1 = map (\<lambda>i. - oexps ! i) [0..<n]
    \<and> loss_and_gradient forward finalize oexps holdout data L x g1 n =
      loss_and_gradient forward finalize oexps holdout data L x g2 n"
proof -
  have zero: "\<And>g. length g = n \<Longrightarrow> fold (\<lambda>i g. g[i := 0]) [0..<n] g = replicate n 0"
    by (simp add: fold_assign_all map_replicate_trivial)
  have mz: "fold (\<lambda>i m. m[i := 0]) [0..<n] m1 = fold (\<lambda>i m. m[i := 0]) [0..<n] m2"
    using assms by (simp add: zero)
  have any: "\<And>f. fold (\<lambda>i g. g[i := f i]) [0..<n] g1 = fold (\<lambda>i g. g[i := f i]) [0..<n] g2"
    using assms by (simp add: fold_assign_all)
  show ?thesis
    using assms any [of "\<lambda>i. - oexps ! i"]
    by (simp add: zero mz logress_lbfgs_evaluate_def maxent_lbfgs_evaluate_def loss_and_gradient_def
        any fold_assign_all map_replicate_trivial Let_def split: prod.splits)
qed

text \<open>Witness for C9: the concrete trainers with the buffers \<open>[7, 9]\<close> and
  \<open>[0, 0]\<close>, and the multi-class evaluator on the attribute data set with the
  buffers \<open>[7, 9, 7, 9]\<close> and \<open>[0, 0, 0, 0]\<close>.\<close>

theorem gradient_buffer_overwritten_witness:
  "length [7, 9 :: real] = 2 \<and> length [0, 0 :: real] = 2
   \<and> logress_lbfgs_evaluate example_logress [1, 3] [7, 9] 2 0 = ([-1, 4], 2)
   \<and> logress_lbfgs_evaluate example_logress [1, 3] [0, 0] 2 0 = ([-1, 4], 2)
   \<and> snd (maxent_lbfgs_evaluate example_maxent [1, 3] [7, 9] 2 0) = ([2, 6], 10)
   \<and> snd (maxent_lbfgs_evaluate example_maxent [1, 3] [0, 0] 2 0) = ([2, 6], 10)
   \<and> length [5, 5 :: real] = 2
   \<and> snd (maxent_lbfgs_evaluate (example_maxent\<lparr>me_mexps := [0, 0]\<rparr>) [1, 3] [0, 0] 2 0) = ([2, 6], 10)
   \<and> length [7, 9, 7, 9 :: real] = 4 \<and> length [0, 0, 0, 0 :: real] = 4
   \<and> loss_and_gradient example_forward example_finalize [1, 0, 0, 0] 1 example_attribute_data 2
         [1, 3, 0, 0] [7, 9, 7, 9] 4 = ([- 1 / 2, 1 / 2, 0, 0], ln 2)
   \<and> loss_and_gradient example_forward example_finalize [1, 0, 0, 0] 1 example_attribute_data 2
         [1, 3, 0, 0] [0, 0, 0, 0] 4 = ([- 1 / 2, 1 / 2, 0, 0], ln 2)"
  using gradient_buffer_overwritten [of "[7, 9, 7, 9]" 4 "[0, 0, 0, 0]" "[0, 0, 0, 0]" "[0, 0, 0, 0]"
      example_logress "[1, 3, 0, 0]" 0 example_maxent "[1, 0, 0, 0]" example_forward example_finalize 1
      example_attribute_data 2]
    gradient_buffer_overwritten [of "[7, 9]" 2 "[0, 0]" "[5, 5]" "[0, 0]" example_logress "[1, 3]" 0 example_maxent]
  by (simp add: example_defs logress_lbfgs_evaluate_def logress_instance_def logress_l2_def
      linear_binary_score_def logistic_error_def bool_to_double_def
      maxent_lbfgs_evaluate_def maxent_instance_def maxent_l2_def
      inner_product_def add_features_def logsumexp_def numeral_2_eq_2 multi_eval_defs)

section \<open>The progress callbacks\<close>

lemma maxent_holdout_evaluation_clk:
  "maxent_holdout_evaluation (tr\<lparr>me_clk_prev := clk\<rparr>) = maxent_holdout_evaluation tr"
  using maxent_holdout_loop_cong [of "tr\<lparr>me_clk_prev := clk\<rparr>" tr "me_data tr" "(0, 0)"]
  by (simp add: maxent_holdout_evaluation_def)

text \<open>
  Claim C7, as the code has it. The progress callback of the maxent trainer returns
  \<open>1\<close> when the iteration count is above \<^verbatim>\<open>m_maxiter\<close> and \<open>0\<close> otherwise: it
  returns (no holdout group, or every holdout instance has a candidate its evaluation
  can score), and whenever it returns, that is the value. The progress callback of
  the binary trainer returns \<open>0\<close> for every iteration count; its
  \<^verbatim>\<open>m_lbfgs_maxiter\<close> is an argument of the solver call in \<^verbatim>\<open>train\<close>.
\<close>

theorem progress_stop_signal:
  "(me_holdout mt = -1 \<or> holdout_scorable mt \<longrightarrow>
      (\<exists>os. maxent_lbfgs_progress mt x g fx xnorm gnorm step n k ls clk =
         Some (mt\<lparr>me_clk_prev := clk\<rparr>, os, if me_maxiter mt < k then 1 else 0)))
   \<and> (\<forall>r. maxent_lbfgs_progress mt x g fx xnorm gnorm step n k ls clk = Some r \<longrightarrow>
         snd (snd r) = (if me_maxiter mt < k then 1 else 0))
   \<and> snd (snd (logress_lbfgs_progress tr x g fx xnorm gnorm step n k ls clk)) = 0"
proof (intro conjI impI allI)
  assume a: "me_holdout mt = -1 \<or> holdout_scorable mt"
  show "\<exists>os. maxent_lbfgs_progress mt x g fx xnorm gnorm step n k ls clk =
         Some (mt\<lparr>me_clk_prev := clk\<rparr>, os, if me_maxiter mt < k then 1 else 0)"
  proof (cases "me_holdout mt = -1")
    case True
    then show ?thesis by (simp add: maxent_lbfgs_progress_def Let_def)
  next
    case False
    with a have "holdout_scorable mt" by simp
    then obtain ev where "maxent_holdout_evaluation mt = Some ev"
      using maxent_holdout_evaluation_total by blast
    with False show ?thesis
      by (simp add: maxent_lbfgs_progress_def Let_def maxent_holdout_evaluation_clk)
  qed
next
  fix r assume "maxent_lbfgs_progress mt x g fx xnorm gnorm step n k ls clk = Some r"
  then show "snd (snd r) = (if me_maxiter mt < k then 1 else 0)"
    by (auto simp: maxent_lbfgs_progress_def Let_def split: if_splits option.splits)
next
  show "snd (snd (logress_lbfgs_progress tr x g fx xnorm gnorm step n k ls clk)) = 0"
    by (simp add: logress_lbfgs_progress_def Let_def)
qed

text \<open>Witness for C7: the concrete maxent trainer (maximum \<open>1\<close>) at the
  iterations \<open>2\<close> and \<open>1\<close>.\<close>

theorem progress_stop_signal_witness:
  "holdout_scorable example_maxent
   \<and> me_maxiter example_maxent < 2
   \<and> maxent_lbfgs_progress example_maxent [1, 3] [0, 0] 1 2 3 4 2 2 1 5 =
       Some (example_maxent\<lparr>me_clk_prev := 5\<rparr>,
             [Iteration 2, Log_likelihood (- 1), Feature_norm 2, Error_norm 3, Active_features 2 2,
              Line_search_trials 1, Line_search_step 4, Iteration_ticks 5, Accuracy 0 0 1, Empty_line], 1)
   \<and> snd (snd (the (maxent_lbfgs_progress example_maxent [1, 3] [0, 0] 1 2 3 4 2 1 1 5))) = 0"
  using progress_stop_signal [of example_maxent "[1, 3]" "[0, 0]" 1 2 3 4 2 2 1 5 example_logress]
    progress_stop_signal [of example_maxent "[1, 3]" "[0, 0]" 1 2 3 4 2 1 1 5 example_logress]
  by (simp add: example_defs maxent_lbfgs_progress_def progress_report_def maxent_holdout_evaluation_def
      inner_product_def DBL_MAX_def holdout_scorable_def scorable_def cand_score_def numeral_2_eq_2 Let_def)

text \<open>
  Counterexample for C7 as stated: the binary trainer with the maximum \<open>1\<close> returns
  \<open>0\<close> (continue) at iteration \<open>2\<close>.
\<close>

theorem logress_progress_counterexample:
  "lr_lbfgs_maxiter example_logress < 2
   \<and> snd (snd (logress_lbfgs_progress example_logress [1, 3] [0, 0] 1 2 3 4 2 2 1 5)) = 0"
  by (simp add: logress_lbfgs_progress_def Let_def) (simp add: example_logress_def)

section \<open>Prediction in the maxent holdout evaluation\<close>

text \<open>
  Where an instance has a candidate scoring above \<^verbatim>\<open>-DBL_MAX\<close>, the candidate
  loop ends at the first candidate of maximal score; for an instance without
  candidates it ends at the end iterator.
\<close>

lemma maxent_argmax_first_maximum:
  assumes "scorable w iti"
  shows "\<exists>j<length (mi_candidates iti).
     snd (maxent_argmax w (mi_candidates iti) 0 (- DBL_MAX, None)) = Some j
     \<and> (\<forall>k<length (mi_candidates iti). cand_score w (mi_candidates iti ! k) \<le> cand_score w (mi_candidates iti ! j))
     \<and> (\<forall>k<j. cand_score w (mi_candidates iti ! k) < cand_score w (mi_candidates iti ! j))"
proof -
  from assms have "\<exists>c\<in>set (mi_candidates iti). - DBL_MAX < cand_score w c"
    by (simp add: scorable_iff)
  from maxent_argmax_some [OF this, of 0 None] show ?thesis
    by auto
qed

lemma maxent_argmax_empty: "snd (maxent_argmax w [] 0 (- DBL_MAX, None)) = None"
  by simp

text \<open>
  Claim C10. The claim takes one candidate per holdout instance to be enough for
  the iterator \<^verbatim>\<open>itc_max\<close> to leave the end position. \<^verbatim>\<open>score_max\<close> starts at
  \<^verbatim>\<open>-DBL_MAX\<close> and is replaced on a strict increase only, so a candidate that scores
  \<^verbatim>\<open>-DBL_MAX\<close> (or below) does not move the iterator: for the holdout instance with
  the single candidate of feature value \<^verbatim>\<open>DBL_MAX\<close> under the weight \<open>-1\<close> the
  loop ends with the end iterator, which \<^verbatim>\<open>itc_max->is_true()\<close> dereferences.
\<close>

theorem maxent_holdout_nonempty_end_iterator:
  "mi_candidates (hd (me_data extreme_maxent)) \<noteq> []
   \<and> mi_group (hd (me_data extreme_maxent)) = me_holdout extreme_maxent
   \<and> cand_score (me_weights extreme_maxent) (hd (mi_candidates (hd (me_data extreme_maxent)))) = - DBL_MAX
   \<and> maxent_argmax (me_weights extreme_maxent) (mi_candidates (hd (me_data extreme_maxent))) 0 (- DBL_MAX, None)
       = (- DBL_MAX, None)
   \<and> maxent_holdout_evaluation extreme_maxent = None"
  by (simp add: extreme_maxent_def cand_score_def inner_product_def maxent_holdout_evaluation_def)

section \<open>What the holdout evaluations report\<close>

lemma maxent_holdout_single_line:
  "maxent_holdout_evaluation tr = Some os \<Longrightarrow> \<exists>a c t. os = [Accuracy a c t]"
  by (auto simp: maxent_holdout_evaluation_def Let_def split: option.splits)

lemma logress_holdout_sign:
  "bi_group iti = lr_holdout tr \<Longrightarrow>
   fst (logress_holdout_instance tr False iti (m, os)) =
     cm_increment m (if bi_truth iti then 1 else 0)
       (if inner_product (bi_features iti) (lr_weights tr) \<le> 0 then 0 else 1)"
  by (simp add: logress_holdout_instance_def Let_def)

text \<open>
  Claim C6. On the concrete trainers, each with one holdout instance which the
  model misclassifies: \<^verbatim>\<open>trainer_maxent::holdout_evaluation\<close> counts correct and
  total instances and writes the accuracy line only, with no confusion matrix and no
  precision, recall or F1, where \<^verbatim>\<open>trainer_logress::holdout_evaluation\<close> writes the
  accuracy and the micro-averaged precision, recall and F1 of its confusion matrix.
\<close>

theorem maxent_holdout_reports_accuracy_only:
  "maxent_holdout_evaluation example_maxent = Some [Accuracy 0 0 1]
   \<and> snd (logress_holdout_evaluation example_logress False) = [Accuracy 0 0 1, Micro_average 0 0 0]"
  by (simp add: example_defs logress_holdout_evaluation_def logress_holdout_instance_def
     cm_increment_def cm_empty_def output_accuracy_def output_micro_def
     cm_total_def cm_correct_def ratio_def Let_def numeral_2_eq_2 inner_product_def
     maxent_holdout_evaluation_def DBL_MAX_def)

section \<open>Reading a line\<close>

text \<open>
  An identifier returned by \<open>intern\<close> names the interned string, and the dictionary
  only grows at its end, so identifiers given out earlier keep their names. The
  feature loop appends, for the non-empty fields in their order, pairs whose
  identifiers name what \<^verbatim>\<open>get_name_value\<close> returned.
\<close>

lemma quark_find_Some:
  "quark_find q name i = Some j \<Longrightarrow> i \<le> j \<and> j - i < length q \<and> q ! (j - i) = name"
proof (induction q arbitrary: i)
  case Nil
  then show ?case by simp
next
  case (Cons k ks)
  show ?case
  proof (cases "k = name")
    case True
    with Cons.prems show ?thesis by simp
  next
    case False
    with Cons.prems have "quark_find ks name (Suc i) = Some j" by simp
    from Cons.IH [OF this] have "Suc i \<le> j" "j - Suc i < length ks" "ks ! (j - Suc i) = name"
      by simp_all
    moreover from \<open>Suc i \<le> j\<close> have "j - i = Suc (j - Suc i)" by arith
    ultimately show ?thesis by simp
  qed
qed

lemma intern_result:
  "intern q name = (i, q') \<Longrightarrow> i < length q' \<and> q' ! i = name \<and> (\<exists>ys. q' = q @ ys)"
  using quark_find_Some [of q name 0]
  by (auto simp: intern_def split: option.splits)

lemma read_fields_result:
  "read_fields get_name_value toks (fs, q) = (fs', q') \<Longrightarrow>
   (\<exists>ys. q' = q @ ys) \<and>
   (\<exists>new. fs' = fs @ new \<and> list_all (\<lambda>(fid, v). fid < length q') new
      \<and> map (\<lambda>(fid, v). (q' ! fid, v)) new = map get_name_value (filter (\<lambda>t. t \<noteq> []) toks))"
proof (induction toks arbitrary: fs q)
  case Nil
  then show ?case by simp
next
  case (Cons tok rest)
  show ?case
  proof (cases "tok = []")
    case True
    with Cons.prems have "read_fields get_name_value rest (fs, q) = (fs', q')" by simp
    from Cons.IH [OF this] True show ?thesis by simp
  next
    case False
    obtain name v where nv: "get_name_value tok = (name, v)" by (cases "get_name_value tok")
    obtain fid q1 where it: "intern q name = (fid, q1)" by (cases "intern q name")
    from intern_result [OF it] obtain ys1 where q1: "fid < length q1" "q1 ! fid = name" "q1 = q @ ys1"
      by blast
    from Cons.prems False nv it
    have "read_fields get_name_value rest (fs @ [(fid, v)], q1) = (fs', q')" by simp
    from Cons.IH [OF this] obtain ys new where r: "q' = q1 @ ys" "fs' = (fs @ [(fid, v)]) @ new"
      "list_all (\<lambda>(fid, v). fid < length q') new"
      "map (\<lambda>(fid, v). (q' ! fid, v)) new = map get_name_value (filter (\<lambda>t. t \<noteq> []) rest)"
      by blast
    have "q' ! fid = name" using r(1) q1(1,2) by (simp add: nth_append)
    moreover have "fid < length q'" using r(1) q1(1) by simp
    ultimately have "list_all (\<lambda>(fid, v). fid < length q') ((fid, v) # new)
      \<and> map (\<lambda>(fid, v). (q' ! fid, v)) ((fid, v) # new) = map get_name_value (filter (\<lambda>t. t \<noteq> []) (tok # rest))"
      using r(3,4) False nv by simp
    moreover have "fs' = fs @ ((fid, v) # new)" using r(2) by simp
    moreover have "\<exists>ys. q' = q @ ys" using r(1) q1(3) by simp
    ultimately show ?thesis by blast
  qed
qed

lemma intern_extends: "\<exists>ys. snd (intern q name) = q @ ys"
  using intern_result [of q name "fst (intern q name)" "snd (intern q name)"] by simp

lemma multi_read_line_thrown:
  assumes "tokenizer line (CHR 0x09) = [] \<or> hd (tokenizer line (CHR 0x09)) = []
     \<or> (take 1 (hd (tokenizer line (CHR 0x09))) \<noteq> ''T'' \<and> take 1 (hd (tokenizer line (CHR 0x09))) \<noteq> ''F'')"
  shows "\<exists>e. multi_read_line tokenizer get_name_value line instance features labels lines =
     Thrown e (instance, features, labels)"
  using assms by (cases "tokenizer line (CHR 0x09)") (auto simp: multi_read_line_def)

lemma multi_read_line_returned:
  assumes "\<not> (tokenizer line (CHR 0x09) = [] \<or> hd (tokenizer line (CHR 0x09)) = []
     \<or> (take 1 (hd (tokenizer line (CHR 0x09))) \<noteq> ''T'' \<and> take 1 (hd (tokenizer line (CHR 0x09))) \<noteq> ''F''))"
  shows "\<exists>s. multi_read_line tokenizer get_name_value line instance features labels lines = Returned s"
  using assms
  by (cases "tokenizer line (CHR 0x09)") (auto simp: multi_read_line_def Let_def split: prod.splits)

lemma attribute_read_line_thrown:
  assumes "tokenizer line (CHR 0x09) = [] \<or> hd (tokenizer line (CHR 0x09)) = []"
  shows "\<exists>e. attribute_read_line tokenizer get_name_value line instance features labels lines =
     Thrown e (instance, features, labels)"
  using assms by (cases "tokenizer line (CHR 0x09)") (auto simp: attribute_read_line_def)

lemma attribute_read_line_returned:
  assumes "\<not> (tokenizer line (CHR 0x09) = [] \<or> hd (tokenizer line (CHR 0x09)) = [])"
  shows "\<exists>s. attribute_read_line tokenizer get_name_value line instance features labels lines = Returned s"
  using assms
  by (cases "tokenizer line (CHR 0x09)") (auto simp: attribute_read_line_def Let_def split: prod.splits)

lemma multi_read_line_result:
  assumes a: "multi_read_line tokenizer get_name_value line instance features labels lines =
          Returned (instance', features', labels')"
  shows "\<exists>cand. instance' = instance\<lparr>mi_candidates := mi_candidates instance @ [cand]\<rparr>
           \<and> cand_truth cand = (take 1 (hd (tokenizer line (CHR 0x09))) = ''T'')
           \<and> cand_label cand < length labels'
           \<and> labels' ! cand_label cand = hd (tokenizer line (CHR 0x09))
           \<and> map (\<lambda>(fid, v). (features' ! fid, v)) (cand_features cand) =
               map get_name_value (filter (\<lambda>t. t \<noteq> []) (tl (tokenizer line (CHR 0x09))))
           \<and> (\<exists>ys. features' = features @ ys) \<and> (\<exists>zs. labels' = labels @ zs)"
proof -
  let ?toks = "tokenizer line (CHR 0x09)"
  from a obtain itv rest where toks: "?toks = itv # rest"
    by (cases ?toks) (auto simp: multi_read_line_def)
  obtain lid l' where il: "intern labels itv = (lid, l')" by (cases "intern labels itv")
  obtain fs f' where rf: "read_fields get_name_value rest ([], features) = (fs, f')"
    by (cases "read_fields get_name_value rest ([], features)")
  from a toks il rf have res: "itv \<noteq> []" "take 1 itv = ''T'' \<or> take 1 itv = ''F''"
    "instance' = instance\<lparr>mi_candidates := mi_candidates instance @
        [\<lparr>cand_features = fs, cand_truth = (take 1 itv = ''T''), cand_label = lid\<rparr>]\<rparr>"
    "features' = f'" "labels' = l'"
    by (auto simp: multi_read_line_def Let_def split: if_splits)
  from read_fields_result [OF rf] have
    "map (\<lambda>(fid, v). (f' ! fid, v)) fs = map get_name_value (filter (\<lambda>t. t \<noteq> []) rest)"
    "\<exists>ys. f' = features @ ys"
    by auto
  moreover from intern_result [OF il] have "lid < length l'" "l' ! lid = itv" "\<exists>zs. l' = labels @ zs"
    by simp_all
  ultimately show ?thesis
    using res toks
    by (intro exI [of _ "\<lparr>cand_features = fs, cand_truth = (take 1 itv = ''T''), cand_label = lid\<rparr>"]) simp
qed

lemma attribute_read_line_result:
  assumes a: "attribute_read_line tokenizer get_name_value line ainstance features labels lines =
          Returned (ainstance', features', labels')"
  shows "ai_label ainstance' < length labels'
        \<and> labels' ! ai_label ainstance' = hd (tokenizer line (CHR 0x09))
        \<and> ai_group ainstance' = ai_group ainstance
        \<and> take (length (ai_attributes ainstance)) (ai_attributes ainstance') = ai_attributes ainstance
        \<and> map (\<lambda>(fid, v). (features' ! fid, v))
              (drop (length (ai_attributes ainstance)) (ai_attributes ainstance')) =
            map get_name_value (filter (\<lambda>t. t \<noteq> []) (tl (tokenizer line (CHR 0x09))))
        \<and> (\<exists>ys. features' = features @ ys) \<and> (\<exists>zs. labels' = labels @ zs)"
proof -
  let ?toks = "tokenizer line (CHR 0x09)"
  from a obtain itv rest where toks: "?toks = itv # rest"
    by (cases ?toks) (auto simp: attribute_read_line_def)
  obtain lid l' where il: "intern labels itv = (lid, l')" by (cases "intern labels itv")
  obtain fs f' where rf: "read_fields get_name_value rest (ai_attributes ainstance, features) = (fs, f')"
    by (cases "read_fields get_name_value rest (ai_attributes ainstance, features)")
  from a toks il rf have res: "itv \<noteq> []"
    "ainstance' = ainstance\<lparr>ai_label := lid, ai_attributes := fs\<rparr>" "features' = f'" "labels' = l'"
    by (auto simp: attribute_read_line_def Let_def split: if_splits)
  from read_fields_result [OF rf] obtain new where new: "fs = ai_attributes ainstance @ new"
    "map (\<lambda>(fid, v). (f' ! fid, v)) new = map get_name_value (filter (\<lambda>t. t \<noteq> []) rest)"
    "\<exists>ys. f' = features @ ys"
    by auto
  from intern_result [OF il] have lid: "lid < length l'" "l' ! lid = itv" "\<exists>zs. l' = labels @ zs"
    by simp_all
  show ?thesis
    using res toks new lid by simp
qed

lemma attribute_read_stream_thrown:
  assumes "line \<noteq> []" and "take 1 line \<noteq> ''#''"
    and "tokenizer line (CHR 0x09) = [] \<or> hd (tokenizer line (CHR 0x09)) = []"
  shows "\<exists>e. attribute_read_stream tokenizer get_name_value fresh (line # rest) data lines =
     Thrown e (data\<lparr>ad_instances := ad_instances data @ [fresh]\<rparr>)"
proof -
  from attribute_read_line_thrown [where tokenizer = tokenizer and line = line, OF assms(3)] obtain e where
    "attribute_read_line tokenizer get_name_value line fresh (ad_features data) (ad_labels data) (lines + 1) =
       Thrown e (fresh, ad_features data, ad_labels data)"
    by blast
  with assms(1,2) show ?thesis by simp
qed

lemma multi_read_lines_thrown:
  assumes "line \<noteq> []" and "take 1 line \<noteq> ''#''" and "take 14 line \<noteq> ''@unregularize'' @ [CHR 0x09]"
    and "take 4 line \<noteq> ''@boi''" and "take 4 line \<noteq> ''@eoi''" and "take 9 line \<noteq> ''@negative''"
    and "md_instances data \<noteq> []"
    and "tokenizer line (CHR 0x09) = [] \<or> hd (tokenizer line (CHR 0x09)) = []
     \<or> (take 1 (hd (tokenizer line (CHR 0x09))) \<noteq> ''T'' \<and> take 1 (hd (tokenizer line (CHR 0x09))) \<noteq> ''F'')"
  shows "\<exists>e. multi_read_lines tokenizer get_name_value fresh grp (line # rest) data lines = Thrown e data"
proof -
  from multi_read_line_thrown [where tokenizer = tokenizer and line = line, OF assms(8)] obtain e where
    "multi_read_line tokenizer get_name_value line (last (md_instances data)) (md_features data)
       (md_labels data) (lines + 1) =
       Thrown e (last (md_instances data), md_features data, md_labels data)"
    by blast
  with assms(1-7) show ?thesis by simp
qed

text \<open>
  Claim C8, as the code has it. \<^verbatim>\<open>read_line\<close> of train/multi.cpp throws
  \<^verbatim>\<open>invalid_data\<close> exactly when the tokenizer yields no field, or the first field is
  empty, or the first field begins with neither \<open>T\<close> nor \<open>F\<close>; \<^verbatim>\<open>read_line\<close> of
  train/attribute.cpp exactly in the first two cases; neither is undefined. When
  \<^verbatim>\<open>read_line\<close> throws, the instance and the two dictionaries it was given are as
  they were: it has written nothing from that line. For every other line the
  multi-candidate reader appends one candidate whose truth flag says whether the
  class begins with \<open>T\<close>, whose label identifier names the class field, and whose
  features, read back through the feature dictionary, are the (name, value) pairs of
  the non-empty fields in input order; the attribute reader sets the label
  identifier of the class field and appends the pairs of the non-empty fields, in
  input order, to the attributes of the instance; the dictionaries returned extend
  the given ones. In \<^verbatim>\<open>read_stream\<close> the exception ends the load at that line,
  whatever follows: in the multi-candidate dialect with the data set as it was
  before the line, no candidate appended; in the attribute dialect with the data set
  holding one more instance, the new one \<^verbatim>\<open>read_stream\<close> has appended for that line
  before \<^verbatim>\<open>read_line\<close> ran.
\<close>

theorem read_line_invalid_data:
  "((\<exists>e s. multi_read_line tokenizer get_name_value line instance features labels lines = Thrown e s) \<longleftrightarrow>
      (tokenizer line (CHR 0x09) = [] \<or> hd (tokenizer line (CHR 0x09)) = []
       \<or> (take 1 (hd (tokenizer line (CHR 0x09))) \<noteq> ''T'' \<and> take 1 (hd (tokenizer line (CHR 0x09))) \<noteq> ''F'')))
   \<and> ((\<exists>e s. attribute_read_line tokenizer get_name_value line ainstance features labels lines = Thrown e s) \<longleftrightarrow>
      (tokenizer line (CHR 0x09) = [] \<or> hd (tokenizer line (CHR 0x09)) = []))
   \<and> multi_read_line tokenizer get_name_value line instance features labels lines \<noteq> Undefined
   \<and> attribute_read_line tokenizer get_name_value line ainstance features labels lines \<noteq> Undefined
   \<and> (\<forall>e s. multi_read_line tokenizer get_name_value line instance features labels lines = Thrown e s \<longrightarrow>
        s = (instance, features, labels))
   \<and> (\<forall>e s. attribute_read_line tokenizer get_name_value line ainstance features labels lines = Thrown e s \<longrightarrow>
        s = (ainstance, features, labels))
   \<and> (\<forall>instance' features' labels'.
        multi_read_line tokenizer get_name_value line instance features labels lines =
          Returned (instance', features', labels') \<longrightarrow>
        (\<exists>cand. instance' = instance\<lparr>mi_candidates := mi_candidates instance @ [cand]\<rparr>
           \<and> cand_truth cand = (take 1 (hd (tokenizer line (CHR 0x09))) = ''T'')
           \<and> cand_label cand < length labels'
           \<and> labels' ! cand_label cand = hd (tokenizer line (CHR 0x09))
           \<and> map (\<lambda>(fid, v). (features' ! fid, v)) (cand_features cand) =
               map get_name_value (filter (\<lambda>t. t \<noteq> []) (tl (tokenizer line (CHR 0x09))))
           \<and> (\<exists>ys. features' = features @ ys) \<and> (\<exists>zs. labels' = labels @ zs)))
   \<and> (\<forall>ainstance' features' labels'.
        attribute_read_line tokenizer get_name_value line ainstance features labels lines =
          Returned (ainstance', features', labels') \<longrightarrow>
        ai_label ainstance' < length labels'
        \<and> labels' ! ai_label ainstance' = hd (tokenizer line (CHR 0x09))
        \<and> ai_group ainstance' = ai_group ainstance
        \<and> take (length (ai_attributes ainstance)) (ai_attributes ainstance') = ai_attributes ainstance
        \<and> map (\<lambda>(fid, v). (features' ! fid, v))
              (drop (length (ai_attributes ainstance)) (ai_attributes ainstance')) =
            map get_name_value (filter (\<lambda>t. t \<noteq> []) (tl (tokenizer line (CHR 0x09))))
        \<and> (\<exists>ys. features' = features @ ys) \<and> (\<exists>zs. labels' = labels @ zs))
   \<and> (line \<noteq> [] \<and> take 1 line \<noteq> ''#'' \<and> take 14 line \<noteq> ''@unregularize'' @ [CHR 0x09]
        \<and> take 4 line \<noteq> ''@boi'' \<and> take 4 line \<noteq> ''@eoi'' \<and> take 9 line \<noteq> ''@negative''
        \<and> md_instances mdata \<noteq> []
        \<and> (tokenizer line (CHR 0x09) = [] \<or> hd (tokenizer line (CHR 0x09)) = []
           \<or> (take 1 (hd (tokenizer line (CHR 0x09))) \<noteq> ''T'' \<and> take 1 (hd (tokenizer line (CHR 0x09))) \<noteq> ''F''))
        \<longrightarrow> (\<exists>e. multi_read_lines tokenizer get_name_value mfresh grp (line # rest) mdata lines =
                  Thrown e mdata))
   \<and> (line \<noteq> [] \<and> take 1 line \<noteq> ''#''
        \<and> (tokenizer line (CHR 0x09) = [] \<or> hd (tokenizer line (CHR 0x09)) = [])
        \<longrightarrow> (\<exists>e. attribute_read_stream tokenizer get_name_value afresh (line # rest) adata lines =
                  Thrown e (adata\<lparr>ad_instances := ad_instances adata @ [afresh]\<rparr>)))"
proof -
  let ?toks = "tokenizer line (CHR 0x09)"
  let ?m = "multi_read_line tokenizer get_name_value line instance features labels lines"
  let ?a = "attribute_read_line tokenizer get_name_value line ainstance features labels lines"
  let ?cm = "?toks = [] \<or> hd ?toks = [] \<or> (take 1 (hd ?toks) \<noteq> ''T'' \<and> take 1 (hd ?toks) \<noteq> ''F'')"
  let ?ca = "?toks = [] \<or> hd ?toks = []"
  have mt: "\<exists>e. ?m = Thrown e (instance, features, labels)" if ?cm
    using that by (rule multi_read_line_thrown)
  have mr: "\<exists>s. ?m = Returned s" if "\<not> ?cm"
    using that by (rule multi_read_line_returned)
  have at: "\<exists>e. ?a = Thrown e (ainstance, features, labels)" if ?ca
    using that by (rule attribute_read_line_thrown)
  have ar: "\<exists>s. ?a = Returned s" if "\<not> ?ca"
    using that by (rule attribute_read_line_returned)
  have p1: "(\<exists>e s. ?m = Thrown e s) \<longleftrightarrow> ?cm"
    using mt mr by (metis outcome.distinct(1))
  have p2: "(\<exists>e s. ?a = Thrown e s) \<longleftrightarrow> ?ca"
    using at ar by (metis outcome.distinct(1))
  have p3: "?m \<noteq> Undefined"
    using mt mr by (cases ?cm) auto
  have p4: "?a \<noteq> Undefined"
    using at ar by (cases ?ca) auto
  have p5: "\<forall>e s. ?m = Thrown e s \<longrightarrow> s = (instance, features, labels)"
    using mt mr by (cases ?cm) auto
  have p6: "\<forall>e s. ?a = Thrown e s \<longrightarrow> s = (ainstance, features, labels)"
    using at ar by (cases ?ca) auto
  note p7 = multi_read_line_result [where tokenizer = tokenizer and line = line]
  note p8 = attribute_read_line_result [where tokenizer = tokenizer and line = line]
  note p9 = multi_read_lines_thrown [where tokenizer = tokenizer and line = line]
  note p10 = attribute_read_stream_thrown [where tokenizer = tokenizer and line = line]
  show ?thesis
    apply (intro conjI)
             apply (rule p1)
            apply (rule p2)
           apply (rule p3)
          apply (rule p4)
         apply (rule p5)
        apply (rule p6)
       apply (intro allI impI, erule p7)
      apply (intro allI impI, erule p8)
     apply (intro impI, elim conjE, rule p9, assumption+)
    apply (intro impI, elim conjE, rule p10, assumption+)
    done
qed

lemmas read_line_defs = multi_read_line_def attribute_read_line_def example_tokenizer_def
  example_name_value_def example_line_def example_line_empty_label_def example_line_class_def
  intern_def

lemmas read_stream_defs = fresh_attribute_instance_def fresh_multi_instance_def
  empty_attribute_data_def empty_multi_data_def unregularize_stream_def unregularize_data_def
  multi_read_stream_def multi_read_finish_def

text \<open>Witness for C8: the tab-splitting tokenizer on a valid line with an empty
  field, on the empty line, on a line with an empty class and on a line whose class
  begins with \<open>X\<close>, which the attribute reader accepts; and the two stream readers
  on a stream whose first line throws.\<close>

theorem read_line_invalid_data_witness:
  "multi_read_line example_tokenizer example_name_value example_line fresh_multi_instance [] [] 1 =
     Returned (\<lparr>mi_candidates = [\<lparr>cand_features = [(0, 1), (1, 1)], cand_truth = True, cand_label = 0\<rparr>],
                mi_group = 0\<rparr>, [''a'', ''b''], [''T''])
   \<and> multi_read_line example_tokenizer example_name_value [] fresh_multi_instance [] [] 2 =
     Thrown (invalid_data msg_no_field 2) (fresh_multi_instance, [], [])
   \<and> multi_read_line example_tokenizer example_name_value example_line_empty_label
       fresh_multi_instance [] [] 3 =
     Thrown (invalid_data msg_empty_label 3) (fresh_multi_instance, [], [])
   \<and> multi_read_line example_tokenizer example_name_value example_line_class
       fresh_multi_instance [''a''] [''T''] 4 =
     Thrown (invalid_data msg_class_label 4) (fresh_multi_instance, [''a''], [''T''])
   \<and> attribute_read_line example_tokenizer example_name_value example_line_class
       fresh_attribute_instance [''a''] [''T''] 4 =
     Returned (\<lparr>ai_attributes = [(1, 1)], ai_label = 1, ai_group = 0\<rparr>, [''a'', ''b''], [''T'', ''Xa''])
   \<and> md_instances unregularize_data \<noteq> []
   \<and> multi_read_lines example_tokenizer example_name_value fresh_multi_instance 0
       [example_line_class, example_line] unregularize_data 0 =
     Thrown (invalid_data msg_class_label 1) unregularize_data
   \<and> attribute_read_stream example_tokenizer example_name_value fresh_attribute_instance
       [example_line_empty_label, example_line] empty_attribute_data 0 =
     Thrown (invalid_data msg_empty_label 1)
       (empty_attribute_data\<lparr>ad_instances := [fresh_attribute_instance]\<rparr>)"
  using read_line_invalid_data [of example_tokenizer example_name_value example_line
      fresh_multi_instance "[]" "[]" 1 fresh_attribute_instance]
    read_line_invalid_data [of example_tokenizer example_name_value example_line_class
      fresh_multi_instance "[''a'']" "[''T'']" 4 fresh_attribute_instance unregularize_data
      fresh_multi_instance 0 "[example_line]"]
    read_line_invalid_data [of example_tokenizer example_name_value example_line_empty_label
      fresh_multi_instance "[]" "[]" 0 fresh_attribute_instance unregularize_data
      fresh_multi_instance 0 "[example_line]" fresh_attribute_instance empty_attribute_data]
  by (simp add: read_line_defs read_stream_defs)

text \<open>
  Counterexample for C8 as stated: in the attribute dialect a line with an empty
  class makes \<^verbatim>\<open>read_line\<close> throw when \<^verbatim>\<open>read_stream\<close> has already appended the
  instance for that line: the data set, empty before, holds one instance when the
  exception leaves.
\<close>

theorem attribute_read_stream_counterexample:
  "ad_instances empty_attribute_data = []
   \<and> attribute_read_stream example_tokenizer example_name_value fresh_attribute_instance
       [example_line_empty_label] empty_attribute_data 0 =
     Thrown (invalid_data msg_empty_label 1)
       \<lparr>ad_instances = [fresh_attribute_instance], ad_features = [], ad_labels = []\<rparr>"
  by (simp add: read_line_defs read_stream_defs)

section \<open>Reserved features under the maxent trainer\<close>

text \<open>
  Claim C2. The stream reserves the feature \<open>bias\<close> with \<^verbatim>\<open>@unregularize\<close>:
  \<^verbatim>\<open>read_stream\<close> of train/multi.cpp gives it the identifier \<open>0\<close> and sets the start
  index of the user features to \<open>1\<close>. \<^verbatim>\<open>multi_train\<close> trains a
  \<^verbatim>\<open>trainer_maxent\<close> on that data set; with \<^verbatim>\<open>regularization.l2=1\<close> (\<open>c2 = 1\<close>)
  its evaluator at the weights \<open>[1, 3]\<close> returns the gradient \<open>[1, 3]\<close> and the
  loss \<open>5\<close>, where without L2 regularization it returns \<open>[0, 0]\<close> and \<open>0\<close>: it has
  added \<open>c2 * x[0]\<close> to the gradient entry of the reserved feature and
  \<open>0.5 * c2 * x[0]\<^sup>2\<close> to the loss. The policy of the claim with the start index of
  the data set, and the L2 block of the binary trainer with that start, give
  \<open>[0, 3]\<close> and \<open>9/2\<close>.
\<close>

theorem maxent_penalizes_reserved_feature:
  "multi_read_stream example_tokenizer example_name_value fresh_multi_instance False 0
     unregularize_stream empty_multi_data = Returned unregularize_data
   \<and> md_user_feature_start unregularize_data = 1
   \<and> maxent_set trainer_maxent_new ''regularization.l2=1'' =
       Some (trainer_maxent_new\<lparr>me_c2 := 1\<rparr>, Some True)
   \<and> snd (maxent_lbfgs_evaluate
            (maxent_train_data (trainer_maxent_new\<lparr>me_c2 := 1\<rparr>) unregularize_data (- 1) 0)
            [1, 3] [0, 0] 2 0) = ([1, 3], 5)
   \<and> snd (maxent_lbfgs_evaluate
            (maxent_train_data (trainer_maxent_new\<lparr>me_c2 := 0\<rparr>) unregularize_data (- 1) 0)
            [1, 3] [0, 0] 2 0) = ([0, 0], 0)
   \<and> l2_policy_spec (md_user_feature_start unregularize_data) 1 [1, 3] 2 ([0, 0], 0) = ([0, 3], 9 / 2)
   \<and> logress_l2 1 (md_user_feature_start unregularize_data) [1, 3] 2 ([0, 0], 0) = ([0, 3], 9 / 2)"
  by (simp add: read_line_defs read_stream_defs maxent_train_data_def maxent_train_setup_def
      maxent_observation_def trainer_maxent_new_def maxent_set_def parse_param_def atoi_def
      atoi_value_def INT_MIN_def INT_MAX_def isspace_def isdigit_def
      maxent_lbfgs_evaluate_def maxent_instance_def maxent_l2_def logress_l2_def l2_policy_spec_def
      inner_product_def add_features_def logsumexp_def numeral_2_eq_2 Let_def)

end
